theory Spec2Isabelle
  imports Main "HOL-Library.Word"
begin

section \<open>Data model\<close>

text \<open>
  The Kubernetes API objects, reduced to the fields that the operations of package k8s
  read or write. Embedded structs are flattened (\<open>pod.ObjectMeta.Name\<close> is
  \<open>pod_Name\<close>); a Go pointer field is an \<open>option\<close> (\<open>None\<close> is nil); a Go
  \<open>int32\<close> is a 32-bit word read as two's complement (\<open><s\<close>, \<open>\<le>s\<close>).
\<close>

type_synonym UID = string
type_synonym int32 = "32 word"

record ContainerStateRunning =
  StartedAt :: string

record ContainerState =
  Running :: "ContainerStateRunning option"

record ContainerStatus =
  container_Name :: string
  State :: ContainerState
  Ready :: bool

record OwnerReference =
  ref_Kind :: string
  ref_Name :: string
  ref_UID :: UID
  Controller :: "bool option"

record Pod =
  pod_Name :: string
  pod_Namespace :: string
  pod_UID :: UID
  pod_OwnerReferences :: "OwnerReference list"
  HostIP :: string
  InitContainerStatuses :: "ContainerStatus list"
  ContainerStatuses :: "ContainerStatus list"

text \<open>A run-time panic of the Go program: the function does not return.\<close>

datatype panic = NilPointerDereference | NilMapAssignment

section \<open>Pod queries\<close>

text \<open>
  The first loop of \<open>IsPodRunning\<close> and of \<open>IsPodReady\<close>: it leaves the function with
  \<open>false\<close> at the first init container whose \<open>State.Running\<close> is not nil. The model
  returns \<open>True\<close> when the loop returned early.
\<close>

primrec initContainerRunning :: "ContainerStatus list \<Rightarrow> bool" where
  "initContainerRunning [] = False"
| "initContainerRunning (c # cs) =
     (if Running (State c) \<noteq> None then True else initContainerRunning cs)"

text \<open>The second loop of \<open>IsPodRunning\<close>: \<open>True\<close> when it ran to its end.\<close>

primrec containersRunning :: "ContainerStatus list \<Rightarrow> bool" where
  "containersRunning [] = True"
| "containersRunning (c # cs) =
     (if Running (State c) = None then False else containersRunning cs)"

definition IsPodRunning :: "Pod \<Rightarrow> bool" where
  "IsPodRunning pod =
     (if initContainerRunning (InitContainerStatuses pod) then False
      else if \<not> containersRunning (ContainerStatuses pod) then False
      else True)"

text \<open>The second loop of \<open>IsPodReady\<close>: two checks per container.\<close>

primrec containersReady :: "ContainerStatus list \<Rightarrow> bool" where
  "containersReady [] = True"
| "containersReady (c # cs) =
     (if Running (State c) = None then False
      else if \<not> Ready c then False
      else containersReady cs)"

definition IsPodReady :: "Pod \<Rightarrow> bool" where
  "IsPodReady pod =
     (if initContainerRunning (InitContainerStatuses pod) then False
      else if \<not> containersReady (ContainerStatuses pod) then False
      else True)"

text \<open>
  The loop of \<open>IsPodBeingManaged\<close>. \<open>owner.Controller\<close> is a \<open>*bool\<close> and the loop
  dereferences it without a nil check, so an unset flag is a panic.
\<close>

primrec ownersLoop :: "OwnerReference list \<Rightarrow> panic + bool" where
  "ownersLoop [] = Inr False"
| "ownersLoop (owner # owners) =
     (case Controller owner of
        None \<Rightarrow> Inl NilPointerDereference
      | Some b \<Rightarrow> if b then Inr True else ownersLoop owners)"

definition IsPodBeingManaged :: "Pod \<Rightarrow> panic + bool" where
  "IsPodBeingManaged pod =
     (if length (pod_OwnerReferences pod) = 0 then Inr False
      else ownersLoop (pod_OwnerReferences pod))"

section \<open>Errors\<close>

text \<open>
  A Go \<open>error\<close> value; \<open>error option\<close> is the interface, \<open>None\<close> being nil.
  \<open>fmt.Errorf\<close> and \<open>fmt.Sprintf\<close> are not evaluated: the value keeps the format
  string and its arguments. \<open>ApiError\<close> is an error of the client library, with the
  text its \<open>Error()\<close> method returns. \<open>ErrAppNotReady\<close> and \<open>ErrAppNotTerminated\<close>
  carry the \<open>ID\<close> and the format and arguments of the \<open>Cause\<close>.
\<close>

datatype fmt_arg =
    ArgString string
  | ArgInt32 int32
  | ArgStrings "string list"
  | ArgPods "Pod list"
  | ArgOverview "(string \<times> string \<times> bool \<times> bool \<times> string) list"
  | ArgError "error option"
and error =
    ErrPodsNotFound
  | ApiError string
  | Errorf string "fmt_arg list"
  | ErrAppNotReady string string "fmt_arg list"
  | ErrAppNotTerminated string string "fmt_arg list"

section \<open>The cluster and the client\<close>

record Node =
  node_Name :: string
  node_Labels :: "(string \<rightharpoonup> string) option"
  Unschedulable :: bool

record PersistentVolumeClaim =
  pvc_Name :: string
  pvc_Namespace :: string
  AccessModes :: "string list"

text \<open>A volume of a pod template; \<open>vol_ClaimName\<close> is
  \<open>vol.PersistentVolumeClaim.ClaimName\<close>, \<open>None\<close> when the pointer is nil.\<close>

record Volume =
  vol_Name :: string
  vol_ClaimName :: "string option"

record Deployment =
  dep_Name :: string
  dep_Namespace :: string
  dep_Replicas :: "int32 option"
  dep_Volumes :: "Volume list"
  dep_AvailableReplicas :: int32
  dep_ReadyReplicas :: int32

record ReplicaSet =
  rs_Name :: string
  rs_Namespace :: string
  rs_UID :: UID
  rs_OwnerReferences :: "OwnerReference list"

record StatefulSet =
  sset_Name :: string
  sset_Namespace :: string
  sset_UID :: UID
  sset_Replicas :: "int32 option"
  sset_Volumes :: "Volume list"
  sset_StatusReplicas :: int32
  sset_ReadyReplicas :: int32

record Job =
  job_Name :: string
  job_Namespace :: string
  Active :: int32
  Succeeded :: int32
  Failed :: int32

text \<open>
  The receiver \<open>k *k8sOps\<close> together with the API server it talks to. \<open>client\<close> is
  \<open>k.client != nil\<close>. The objects of the cluster are listed by kind; the API finds
  a node by its name and a namespaced object by its namespace and name.
  Every call that leaves the process (loading the client configuration, a request to the
  API server) takes the next entry of \<open>faults\<close>: \<open>Some msg\<close> makes that call fail with
  the message and no effect, \<open>None\<close> (or an exhausted script) lets it act on the objects.
  A failed call returns the text of the client library's error (\<open>Inl msg\<close>); the
  caller's \<open>err\<close> is \<open>ApiError msg\<close>.
  The script stands for everything the process does not control: network failures,
  rejected writes, an unreachable server.
\<close>

record k8sOps =
  client :: bool
  faults :: "string option list"
  api_nodes :: "Node list"
  api_pods :: "Pod list"
  api_deployments :: "Deployment list"
  api_replicaSets :: "ReplicaSet list"
  api_claims :: "PersistentVolumeClaim list"
  api_statefulSets :: "StatefulSet list"
  api_jobs :: "Job list"

definition nextFault :: "k8sOps \<Rightarrow> string option \<times> k8sOps" where
  "nextFault k =
     (case faults k of
        [] \<Rightarrow> (None, k)
      | f # fs \<Rightarrow> (f, k\<lparr>faults := fs\<rparr>))"

text \<open>The API server's answer for an object that does not exist:
  \<open>resource "name" not found\<close>.\<close>

definition notFound :: "string \<Rightarrow> string \<Rightarrow> string" where
  "notFound resource name =
     resource @ '' '' @ [CHR 0x22] @ name @ [CHR 0x22] @ '' not found''"

definition Nodes_Get :: "string \<Rightarrow> k8sOps \<Rightarrow> (string + Node) \<times> k8sOps" where
  "Nodes_Get name k =
     (case nextFault k of
        (Some msg, k') \<Rightarrow> (Inl msg, k')
      | (None, k') \<Rightarrow>
          (case find (\<lambda>n. node_Name n = name) (api_nodes k') of
             None \<Rightarrow> (Inl (notFound ''nodes'' name), k')
           | Some n \<Rightarrow> (Inr n, k')))"

definition Nodes_Update :: "Node \<Rightarrow> k8sOps \<Rightarrow> (string + Node) \<times> k8sOps" where
  "Nodes_Update n k =
     (case nextFault k of
        (Some msg, k') \<Rightarrow> (Inl msg, k')
      | (None, k') \<Rightarrow>
          (case find (\<lambda>m. node_Name m = node_Name n) (api_nodes k') of
             None \<Rightarrow> (Inl (notFound ''nodes'' (node_Name n)), k')
           | Some _ \<Rightarrow>
               (Inr n, k'\<lparr>api_nodes :=
                  map (\<lambda>m. if node_Name m = node_Name n then n else m) (api_nodes k')\<rparr>)))"

text \<open>Listing the pods of a namespace; the empty namespace lists all of them.\<close>

definition Pods_List :: "string \<Rightarrow> k8sOps \<Rightarrow> (string + Pod list) \<times> k8sOps" where
  "Pods_List namespace k =
     (case nextFault k of
        (Some msg, k') \<Rightarrow> (Inl msg, k')
      | (None, k') \<Rightarrow>
          (Inr (filter (\<lambda>p. namespace = [] \<or> pod_Namespace p = namespace) (api_pods k')), k'))"

definition Pods_Delete :: "string \<Rightarrow> string \<Rightarrow> k8sOps \<Rightarrow> string option \<times> k8sOps" where
  "Pods_Delete namespace name k =
     (case nextFault k of
        (Some msg, k') \<Rightarrow> (Some msg, k')
      | (None, k') \<Rightarrow>
          (if list_ex (\<lambda>p. pod_Namespace p = namespace \<and> pod_Name p = name) (api_pods k')
           then (None, k'\<lparr>api_pods :=
                   filter (\<lambda>p. \<not> (pod_Namespace p = namespace \<and> pod_Name p = name))
                     (api_pods k')\<rparr>)
           else (Some (notFound ''pods'' name), k')))"

definition ReplicaSets_List :: "string \<Rightarrow> k8sOps \<Rightarrow> (string + ReplicaSet list) \<times> k8sOps" where
  "ReplicaSets_List namespace k =
     (case nextFault k of
        (Some msg, k') \<Rightarrow> (Inl msg, k')
      | (None, k') \<Rightarrow>
          (Inr (filter (\<lambda>r. namespace = [] \<or> rs_Namespace r = namespace)
                  (api_replicaSets k')), k'))"

text \<open>\<open>Get\<close> of a namespaced object, for the four kinds that are only read.\<close>

definition getObject ::
  "string \<Rightarrow> (k8sOps \<Rightarrow> 'a list) \<Rightarrow> ('a \<Rightarrow> string) \<Rightarrow> ('a \<Rightarrow> string) \<Rightarrow> string \<Rightarrow> string
     \<Rightarrow> k8sOps \<Rightarrow> (string + 'a) \<times> k8sOps" where
  "getObject resource objects namespaceOf nameOf namespace name k =
     (case nextFault k of
        (Some msg, k') \<Rightarrow> (Inl msg, k')
      | (None, k') \<Rightarrow>
          (case find (\<lambda>obj. namespaceOf obj = namespace \<and> nameOf obj = name) (objects k') of
             None \<Rightarrow> (Inl (notFound resource name), k')
           | Some obj \<Rightarrow> (Inr obj, k')))"

definition Deployments_Get :: "string \<Rightarrow> string \<Rightarrow> k8sOps \<Rightarrow> (string + Deployment) \<times> k8sOps" where
  "Deployments_Get = getObject ''deployments.apps'' api_deployments dep_Namespace dep_Name"

definition StatefulSets_Get :: "string \<Rightarrow> string \<Rightarrow> k8sOps \<Rightarrow> (string + StatefulSet) \<times> k8sOps" where
  "StatefulSets_Get =
     getObject ''statefulsets.apps'' api_statefulSets sset_Namespace sset_Name"


definition PersistentVolumeClaims_Get ::
  "string \<Rightarrow> string \<Rightarrow> k8sOps \<Rightarrow> (string + PersistentVolumeClaim) \<times> k8sOps" where
  "PersistentVolumeClaims_Get =
     getObject ''persistentvolumeclaims'' api_claims pvc_Namespace pvc_Name"

text \<open>
  \<open>initK8sClient\<close>: nothing to do once the client is set; otherwise the configuration is
  loaded (\<open>getK8sClient\<close>) and the server asked for its version, and either may fail.
\<close>

definition initK8sClient :: "k8sOps \<Rightarrow> error option \<times> k8sOps" where
  "initK8sClient k =
     (if \<not> client k then
        (case nextFault k of
           (Some msg, k1) \<Rightarrow> (Some (ApiError msg), k1)
         | (None, k1) \<Rightarrow>
             (case nextFault k1 of
                (Some msg, k2) \<Rightarrow>
                  (Some (Errorf ''failed to connect to k8s server: %s''
                           [ArgError (Some (ApiError msg))]), k2)
              | (None, k2) \<Rightarrow> (None, k2\<lparr>client := True\<rparr>)))
      else (None, k))"

section \<open>The bounded retry executor\<close>

text \<open>A \<open>time.Duration\<close>, in nanoseconds.\<close>

definition Second :: int where
  "Second = 1000000000"

definition Minute :: int where
  "Minute = 60 * Second"

text \<open>
  What one call of a retry task yields: a panic, or the pair \<open>(retry, err)\<close> of the
  triple \<open>(out, retry, err)\<close> it returns. The first component is dropped: every task of
  this package returns \<open>""\<close> or nil there and every caller discards it.
\<close>

type_synonym attempt = "panic + (bool \<times> error option)"

text \<open>
  Modelled from the spec: \<open>task.DoRetryWithTimeout\<close> of package
  \<open>github.com/portworx/sched-ops/task\<close>, which is imported and not part of the
  sources. Section 4.1: the task is invoked; \<open>(_, false, nil)\<close> stops with nil,
  \<open>(_, false, err)\<close> stops with \<open>err\<close>, \<open>(_, true, err)\<close> sleeps \<open>interval\<close> and
  retries unless the elapsed time has reached \<open>timeout\<close>, in which case the last observed
  error is returned. The transient case is the one with an error: a task that returns a
  nil error has nothing left to retry, and the executor stops with nil whatever the flag
  says. The package relies on it: the task of \<open>handleWatch\<close> returns
  \<open>("", true, err)\<close> on every call, and its re-subscription (section 4.5, one cycle) ends
  when \<open>WatchNode\<close> has returned nil. Sleeping is the only thing that takes time (\<open>elapsed\<close> grows by the
  interval, by nothing when the interval is negative, as \<open>time.Sleep\<close> does), the state
  is handed from one attempt to the next, and a panic of the task ends the executor.
  \<open>n\<close> counts the invocations of the task. Where the loop never ends the result is
  \<open>None\<close>.
\<close>

partial_function (option) retryLoop ::
  "('s \<Rightarrow> attempt \<times> 's) \<Rightarrow> int \<Rightarrow> int \<Rightarrow> int \<Rightarrow> nat \<Rightarrow> 's
     \<Rightarrow> ((panic + error option) \<times> nat \<times> 's) option"
where
  "retryLoop t timeout interval elapsed n s =
     (case t s of
        (Inl p, s') \<Rightarrow> Some (Inl p, Suc n, s')
      | (Inr (retry, err), s') \<Rightarrow>
          if err = None \<or> \<not> retry then Some (Inr err, Suc n, s')
          else let elapsed' = elapsed + max 0 interval in
               if timeout \<le> elapsed' then Some (Inr err, Suc n, s')
               else retryLoop t timeout interval elapsed' (Suc n) s')"

text \<open>
  Modelled from the spec: the entry point of the executor, starting the loop with no time
  elapsed and no invocation made. The result is the error (or the panic), the number of
  invocations of the task, and the state.
\<close>

definition DoRetryWithTimeout ::
  "('s \<Rightarrow> attempt \<times> 's) \<Rightarrow> int \<Rightarrow> int \<Rightarrow> 's \<Rightarrow> ((panic + error option) \<times> nat \<times> 's) option" where
  "DoRetryWithTimeout t timeout timeBeforeRetry s = retryLoop t timeout timeBeforeRetry 0 0 s"

text \<open>What a caller of the form
  \<open>if _, err := task.DoRetryWithTimeout(...); err != nil { return err }; return nil\<close>
  returns: the error, and the state.\<close>

definition returnErr ::
  "((panic + error option) \<times> nat \<times> 's) option \<Rightarrow> ((panic + error option) \<times> 's) option" where
  "returnErr r = map_option (\<lambda>(e, n, s). (e, s)) r"

section \<open>Pods\<close>

definition GetPods :: "string \<Rightarrow> k8sOps \<Rightarrow> (error + Pod list) \<times> k8sOps" where
  "GetPods namespace k =
     (case initK8sClient k of
        (Some err, k1) \<Rightarrow> (Inl err, k1)
      | (None, k1) \<Rightarrow>
          (case Pods_List namespace k1 of
             (Inl msg, k2) \<Rightarrow> (Inl (ApiError msg), k2)
           | (Inr items, k2) \<Rightarrow> (Inr items, k2)))"

text \<open>The inner loop of \<open>GetPodsByOwner\<close>: the pod is appended once for every owner
  reference with the UID (the loop has no \<open>break\<close>).\<close>

primrec appendForOwners :: "UID \<Rightarrow> Pod \<Rightarrow> OwnerReference list \<Rightarrow> Pod list \<Rightarrow> Pod list" where
  "appendForOwners ownerUID pod [] result = result"
| "appendForOwners ownerUID pod (owner # owners) result =
     appendForOwners ownerUID pod owners
       (if ref_UID owner = ownerUID then result @ [pod] else result)"

primrec podsOfOwner :: "UID \<Rightarrow> Pod list \<Rightarrow> Pod list \<Rightarrow> Pod list" where
  "podsOfOwner ownerUID [] result = result"
| "podsOfOwner ownerUID (pod # items) result =
     podsOfOwner ownerUID items
       (appendForOwners ownerUID pod (pod_OwnerReferences pod) result)"

text \<open>A Go result \<open>([]v1.Pod, error)\<close>: the slice is \<open>None\<close> when nil.\<close>

definition GetPodsByOwner ::
  "UID \<Rightarrow> string \<Rightarrow> k8sOps \<Rightarrow> (Pod list option \<times> error option) \<times> k8sOps" where
  "GetPodsByOwner ownerUID namespace k =
     (case GetPods namespace k of
        (Inl err, k1) \<Rightarrow> ((None, Some err), k1)
      | (Inr items, k1) \<Rightarrow>
          (let result = podsOfOwner ownerUID items [] in
           if length result = 0 then ((None, Some ErrPodsNotFound), k1)
           else ((Some result, None), k1)))"

primrec podWithUID :: "UID \<Rightarrow> Pod list \<Rightarrow> Pod option" where
  "podWithUID pUID [] = None"
| "podWithUID pUID (pod # items) =
     (if pod_UID pod = pUID then Some pod else podWithUID pUID items)"

definition GetPodByUID ::
  "UID \<Rightarrow> string \<Rightarrow> k8sOps \<Rightarrow> (Pod option \<times> error option) \<times> k8sOps" where
  "GetPodByUID uid namespace k =
     (case GetPods namespace k of
        (Inl err, k1) \<Rightarrow> ((None, Some err), k1)
      | (Inr items, k1) \<Rightarrow>
          (case podWithUID uid items of
             Some pod \<Rightarrow> ((Some pod, None), k1)
           | None \<Rightarrow> ((None, Some ErrPodsNotFound), k1)))"

text \<open>The loop of \<open>DeletePods\<close>. The delete options (the grace period of a forced
  deletion) do not change what the call returns and are left out of the request.\<close>

primrec deleteLoop :: "Pod list \<Rightarrow> k8sOps \<Rightarrow> error option \<times> k8sOps" where
  "deleteLoop [] k = (None, k)"
| "deleteLoop (pod # rest) k =
     (case Pods_Delete (pod_Namespace pod) (pod_Name pod) k of
        (Some msg, k') \<Rightarrow> (Some (ApiError msg), k')
      | (None, k') \<Rightarrow> deleteLoop rest k')"

definition DeletePods :: "Pod list \<Rightarrow> bool \<Rightarrow> k8sOps \<Rightarrow> error option \<times> k8sOps" where
  "DeletePods podList force k =
     (case initK8sClient k of
        (Some err, k1) \<Rightarrow> (Some err, k1)
      | (None, k1) \<Rightarrow> deleteLoop podList k1)"

definition WaitForPodDeletion_task :: "UID \<Rightarrow> string \<Rightarrow> k8sOps \<Rightarrow> attempt \<times> k8sOps" where
  "WaitForPodDeletion_task uid namespace k =
     (case initK8sClient k of
        (Some err, k1) \<Rightarrow> (Inr (True, Some err), k1)
      | (None, k1) \<Rightarrow>
          (case GetPodByUID uid namespace k1 of
             ((p, Some err), k2) \<Rightarrow>
               if err = ErrPodsNotFound then (Inr (False, None), k2)
               else (Inr (True, Some err), k2)
           | ((Some p, None), k2) \<Rightarrow>
               (Inr (True, Some (Errorf ''pod %s:%s (%s) still present in the system''
                  [ArgString namespace, ArgString (pod_Name p), ArgString uid])), k2)
           | ((None, None), k2) \<Rightarrow> (Inr (False, None), k2)))"

definition WaitForPodDeletion ::
  "UID \<Rightarrow> string \<Rightarrow> int \<Rightarrow> k8sOps \<Rightarrow> ((panic + error option) \<times> k8sOps) option" where
  "WaitForPodDeletion uid namespace timeout k =
     returnErr (DoRetryWithTimeout (WaitForPodDeletion_task uid namespace) timeout (5 * Second) k)"

section \<open>Nodes\<close>

definition labelUpdateMaxRetries :: int where
  "labelUpdateMaxRetries = 5"

definition nodeUpdateTimeout :: int where
  "nodeUpdateTimeout = 1 * Minute"

definition nodeUpdateRetryInterval :: int where
  "nodeUpdateRetryInterval = 2 * Second"

definition GetNodeByName :: "string \<Rightarrow> k8sOps \<Rightarrow> (error + Node) \<times> k8sOps" where
  "GetNodeByName name k =
     (case initK8sClient k of
        (Some err, k1) \<Rightarrow> (Inl err, k1)
      | (None, k1) \<Rightarrow>
          (case Nodes_Get name k1 of
             (Inl msg, k2) \<Rightarrow> (Inl (ApiError msg), k2)
           | (Inr node, k2) \<Rightarrow> (Inr node, k2)))"

text \<open>The task of \<open>CordonNode\<close> (\<open>unschedulable = True\<close>) and of \<open>UnCordonNode\<close>
  (\<open>unschedulable = False\<close>): the two closures differ in that constant only.\<close>

definition setUnschedulable_task :: "bool \<Rightarrow> string \<Rightarrow> k8sOps \<Rightarrow> attempt \<times> k8sOps" where
  "setUnschedulable_task unschedulable nodeName k =
     (case initK8sClient k of
        (Some err, k1) \<Rightarrow> (Inr (True, Some err), k1)
      | (None, k1) \<Rightarrow>
          (case GetNodeByName nodeName k1 of
             (Inl err, k2) \<Rightarrow> (Inr (True, Some err), k2)
           | (Inr n, k2) \<Rightarrow>
               (case Nodes_Update (n\<lparr>Unschedulable := unschedulable\<rparr>) k2 of
                  (Inl msg, k3) \<Rightarrow> (Inr (True, Some (ApiError msg)), k3)
                | (Inr n', k3) \<Rightarrow> (Inr (False, None), k3))))"

definition CordonNode :: "string \<Rightarrow> k8sOps \<Rightarrow> ((panic + error option) \<times> k8sOps) option" where
  "CordonNode nodeName k =
     returnErr (DoRetryWithTimeout (setUnschedulable_task True nodeName)
       nodeUpdateTimeout nodeUpdateRetryInterval k)"

definition UnCordonNode :: "string \<Rightarrow> k8sOps \<Rightarrow> ((panic + error option) \<times> k8sOps) option" where
  "UnCordonNode nodeName k =
     returnErr (DoRetryWithTimeout (setUnschedulable_task False nodeName)
       nodeUpdateTimeout nodeUpdateRetryInterval k)"

text \<open>The loop of \<open>DrainPodsFromNode\<close> that waits for each pod in turn.\<close>

primrec waitLoop :: "Pod list \<Rightarrow> int \<Rightarrow> k8sOps \<Rightarrow> ((panic + error option) \<times> k8sOps) option" where
  "waitLoop [] timeout k = Some (Inr None, k)"
| "waitLoop (p # rest) timeout k =
     (case WaitForPodDeletion (pod_UID p) (pod_Namespace p) timeout k of
        None \<Rightarrow> None
      | Some (Inl pn, k') \<Rightarrow> Some (Inl pn, k')
      | Some (Inr (Some err), k') \<Rightarrow> Some (Inr (Some err), k')
      | Some (Inr None, k') \<Rightarrow> waitLoop rest timeout k')"

text \<open>\<open>DrainPodsFromNode\<close>. The error of the compensating \<open>UnCordonNode\<close> is logged and
  dropped; the log is not part of the model.\<close>

definition DrainPodsFromNode ::
  "string \<Rightarrow> Pod list \<Rightarrow> int \<Rightarrow> k8sOps \<Rightarrow> ((panic + error option) \<times> k8sOps) option" where
  "DrainPodsFromNode nodeName podList timeout k =
     (case CordonNode nodeName k of
        None \<Rightarrow> None
      | Some (Inl pn, k1) \<Rightarrow> Some (Inl pn, k1)
      | Some (Inr (Some err), k1) \<Rightarrow> Some (Inr (Some err), k1)
      | Some (Inr None, k1) \<Rightarrow>
          (case DeletePods podList False k1 of
             (Some err, k2) \<Rightarrow>
               (case UnCordonNode nodeName k2 of
                  None \<Rightarrow> None
                | Some (Inl pn, k3) \<Rightarrow> Some (Inl pn, k3)
                | Some (Inr e, k3) \<Rightarrow> Some (Inr (Some err), k3))
           | (None, k2) \<Rightarrow>
               if timeout > 0 then waitLoop podList timeout k2
               else Some (Inr None, k2)))"

text \<open>
  The loop of \<open>AddLabelOnNode\<close>. Its parameter \<open>err\<close> is the variable declared by
  \<open>var err error\<close> before the loop. In the loop body \<open>node, err := ...\<close> declares a
  second \<open>err\<close>, and that one is assigned by \<open>_, err = ...Update(node)\<close>; the outer
  variable is read by the final \<open>return err\<close> only. Writing to \<open>node.Labels\<close> panics
  when the map is nil.
\<close>

function addLabelLoop ::
  "string \<Rightarrow> string \<Rightarrow> string \<Rightarrow> error option \<Rightarrow> int \<Rightarrow> k8sOps
     \<Rightarrow> (panic + error option) \<times> k8sOps" where
  "addLabelLoop name key v err retryCnt k =
     (if retryCnt < labelUpdateMaxRetries then
        (case Nodes_Get name k of
           (Inl msg, k1) \<Rightarrow> (Inr (Some (ApiError msg)), k1)
         | (Inr node, k1) \<Rightarrow>
             (case node_Labels node of
                None \<Rightarrow> (Inl NilMapAssignment, k1)
              | Some labels \<Rightarrow>
                  if labels key = Some v then (Inr None, k1)
                  else
                    (case Nodes_Update (node\<lparr>node_Labels := Some (labels(key \<mapsto> v))\<rparr>) k1 of
                       (Inr node', k2) \<Rightarrow> (Inr None, k2)
                     | (Inl msg, k2) \<Rightarrow> addLabelLoop name key v err (retryCnt + 1) k2)))
      else (Inr err, k))"
  by pat_completeness auto
termination
  by (relation "measure (\<lambda>(name, key, v, err, retryCnt, k). nat (labelUpdateMaxRetries - retryCnt))")
     auto

definition AddLabelOnNode ::
  "string \<Rightarrow> string \<Rightarrow> string \<Rightarrow> k8sOps \<Rightarrow> (panic + error option) \<times> k8sOps" where
  "AddLabelOnNode name key v k =
     (case initK8sClient k of
        (Some err, k1) \<Rightarrow> (Inr (Some err), k1)
      | (None, k1) \<Rightarrow> addLabelLoop name key v None 0 k1)"

section \<open>Jobs\<close>




section \<open>Deployments and stateful sets\<close>

text \<open>The access modes of a claim, as package \<open>v1\<close> of the client library names them.\<close>

definition ReadWriteOnce :: string where
  "ReadWriteOnce = ''ReadWriteOnce''"

definition ReadOnlyMany :: string where
  "ReadOnlyMany = ''ReadOnlyMany''"

definition ReadWriteMany :: string where
  "ReadWriteMany = ''ReadWriteMany''"

primrec sharedMode :: "string list \<Rightarrow> bool" where
  "sharedMode [] = False"
| "sharedMode (mode # modes) =
     (if mode = ReadOnlyMany \<or> mode = ReadWriteMany then True else sharedMode modes)"

definition isPVCShared :: "PersistentVolumeClaim \<Rightarrow> bool" where
  "isPVCShared pvc = sharedMode (AccessModes pvc)"


definition generatePodsOverviewString ::
  "Pod list \<Rightarrow> (string \<times> string \<times> bool \<times> bool \<times> string) list" where
  "generatePodsOverviewString podList =
     map (\<lambda>p. (pod_Name p, pod_Namespace p, IsPodRunning p, IsPodReady p, HostIP p)) podList"

primrec ownerNamed :: "string \<Rightarrow> OwnerReference list \<Rightarrow> bool" where
  "ownerNamed name [] = False"
| "ownerNamed name (owner # owners) =
     (if ref_Name owner = name then True else ownerNamed name owners)"

text \<open>The loops of \<open>GetDeploymentPods\<close>: the first replica set with an owner reference
  named as the deployment decides.\<close>

primrec replicaSetOf :: "string \<Rightarrow> ReplicaSet list \<Rightarrow> ReplicaSet option" where
  "replicaSetOf name [] = None"
| "replicaSetOf name (rSet # rSets) =
     (if ownerNamed name (rs_OwnerReferences rSet) then Some rSet
      else replicaSetOf name rSets)"

definition GetDeploymentPods ::
  "Deployment \<Rightarrow> k8sOps \<Rightarrow> (Pod list option \<times> error option) \<times> k8sOps" where
  "GetDeploymentPods deployment k =
     (case initK8sClient k of
        (Some err, k1) \<Rightarrow> ((None, Some err), k1)
      | (None, k1) \<Rightarrow>
          (case ReplicaSets_List (dep_Namespace deployment) k1 of
             (Inl msg, k2) \<Rightarrow> ((None, Some (ApiError msg)), k2)
           | (Inr rSets, k2) \<Rightarrow>
               (case replicaSetOf (dep_Name deployment) rSets of
                  Some rSet \<Rightarrow> GetPodsByOwner (rs_UID rSet) (rs_Namespace rSet) k2
                | None \<Rightarrow> ((None, None), k2))))"

definition GetStatefulSetPods ::
  "StatefulSet \<Rightarrow> k8sOps \<Rightarrow> (Pod list option \<times> error option) \<times> k8sOps" where
  "GetStatefulSetPods statefulset k =
     GetPodsByOwner (sset_UID statefulset) (sset_Namespace statefulset) k"

text \<open>
  The loop over the volumes of the pod template in \<open>ValidateDeployment\<close>, with the
  variable \<open>foundPVC\<close> as a parameter. It yields the error of a failed claim lookup (the
  task returns it), or the pair \<open>(shared, foundPVC)\<close> at the end of the loop or at its
  \<open>break\<close>.
\<close>

fun volumesLoop ::
  "string \<Rightarrow> Volume list \<Rightarrow> bool \<Rightarrow> k8sOps \<Rightarrow> (error + (bool \<times> bool)) \<times> k8sOps" where
  "volumesLoop namespace [] foundPVC k = (Inr (False, foundPVC), k)"
| "volumesLoop namespace (vol # vols) foundPVC k =
     (case vol_ClaimName vol of
        None \<Rightarrow> volumesLoop namespace vols foundPVC k
      | Some claimName \<Rightarrow>
          (case PersistentVolumeClaims_Get namespace claimName k of
             (Inl msg, k') \<Rightarrow> (Inl (ApiError msg), k')
           | (Inr claim, k') \<Rightarrow>
               if isPVCShared claim then (Inr (True, True), k')
               else volumesLoop namespace vols True k'))"

text \<open>Lines 943 to 969 of \<open>ValidateDeployment\<close>: the required replica count, from the
  declared count \<open>*dep.Spec.Replicas\<close>.\<close>

definition requiredReplicasOf ::
  "Deployment \<Rightarrow> int32 \<Rightarrow> k8sOps \<Rightarrow> (error + int32) \<times> k8sOps" where
  "requiredReplicasOf dep declared k =
     (if declared \<noteq> 1 then
        (case volumesLoop (dep_Namespace dep) (dep_Volumes dep) False k of
           (Inl err, k') \<Rightarrow> (Inl err, k')
         | (Inr (shared, foundPVC), k') \<Rightarrow>
             if foundPVC \<and> \<not> shared then (Inr 1, k') else (Inr declared, k'))
      else (Inr declared, k))"

text \<open>The loop of \<open>ValidateDeployment\<close> that counts the ready pods.\<close>

primrec readyLoop :: "Pod list \<Rightarrow> string list \<Rightarrow> int32 \<Rightarrow> string list \<times> int32" where
  "readyLoop [] notReadyPods readyCount = (notReadyPods, readyCount)"
| "readyLoop (pod # rest) notReadyPods readyCount =
     (if \<not> IsPodReady pod then readyLoop rest (notReadyPods @ [pod_Name pod]) readyCount
      else readyLoop rest notReadyPods (readyCount + 1))"

definition ValidateDeployment_task :: "Deployment \<Rightarrow> k8sOps \<Rightarrow> attempt \<times> k8sOps" where
  "ValidateDeployment_task deployment k =
     (case initK8sClient k of
        (Some err, k1) \<Rightarrow> (Inr (True, Some err), k1)
      | (None, k1) \<Rightarrow>
     (case Deployments_Get (dep_Namespace deployment) (dep_Name deployment) k1 of
        (Inl msg, k2) \<Rightarrow> (Inr (True, Some (ApiError msg)), k2)
      | (Inr dep, k2) \<Rightarrow>
     (case dep_Replicas dep of
        None \<Rightarrow> (Inl NilPointerDereference, k2)
      | Some declared \<Rightarrow>
     (case requiredReplicasOf dep declared k2 of
        (Inl err, k3) \<Rightarrow> (Inr (True, Some err), k3)
      | (Inr requiredReplicas, k3) \<Rightarrow>
     (case GetDeploymentPods deployment k3 of
        ((podList, Some err), k4) \<Rightarrow>
          (Inr (True, Some (ErrAppNotReady (dep_Name dep)
             ''Failed to get pods for deployment. Err: %v'' [ArgError (Some err)])), k4)
      | ((None, None), k4) \<Rightarrow>
          (Inr (True, Some (ErrAppNotReady (dep_Name dep)
             ''Failed to get pods for deployment. Err: %v'' [ArgError None])), k4)
      | ((Some podList, None), k4) \<Rightarrow>
          if length podList = 0 then
            (Inr (True, Some (ErrAppNotReady (dep_Name dep) ''Deployment has 0 pods'' [])), k4)
          else if dep_AvailableReplicas dep <s requiredReplicas then
            (Inr (True, Some (ErrAppNotReady (dep_Name dep)
               (''Expected replicas: %v Available replicas: %v Current pods overview:'' @ [CHR 0x0A] @ ''%s'')
               [ArgInt32 requiredReplicas, ArgInt32 (dep_AvailableReplicas dep),
                ArgOverview (generatePodsOverviewString podList)])), k4)
          else if dep_ReadyReplicas dep <s requiredReplicas then
            (Inr (True, Some (ErrAppNotReady (dep_Name dep)
               (''Expected replicas: %v Ready replicas: %v Current pods overview:'' @ [CHR 0x0A] @ ''%s'')
               [ArgInt32 requiredReplicas, ArgInt32 (dep_ReadyReplicas dep),
                ArgOverview (generatePodsOverviewString podList)])), k4)
          else
            (case readyLoop podList [] 0 of
               (notReadyPods, readyCount) \<Rightarrow>
                 if requiredReplicas \<le>s readyCount then (Inr (False, None), k4)
                 else (Inr (True, Some (ErrAppNotReady (dep_Name dep)
                         ''Pod(s): %#v not yet ready'' [ArgStrings notReadyPods])), k4)))))))"

definition deploymentReadyTimeout :: int where
  "deploymentReadyTimeout = 10 * Minute"

definition ValidateDeployment ::
  "Deployment \<Rightarrow> k8sOps \<Rightarrow> ((panic + error option) \<times> k8sOps) option" where
  "ValidateDeployment deployment k =
     returnErr (DoRetryWithTimeout (ValidateDeployment_task deployment)
       deploymentReadyTimeout (10 * Second) k)"

primrec firstNotReady :: "Pod list \<Rightarrow> Pod option" where
  "firstNotReady [] = None"
| "firstNotReady (pod # rest) = (if \<not> IsPodReady pod then Some pod else firstNotReady rest)"

definition ValidateStatefulSet_task :: "StatefulSet \<Rightarrow> k8sOps \<Rightarrow> attempt \<times> k8sOps" where
  "ValidateStatefulSet_task statefulset k =
     (case initK8sClient k of
        (Some err, k1) \<Rightarrow> (Inr (True, Some err), k1)
      | (None, k1) \<Rightarrow>
     (case StatefulSets_Get (sset_Namespace statefulset) (sset_Name statefulset) k1 of
        (Inl msg, k2) \<Rightarrow> (Inr (True, Some (ApiError msg)), k2)
      | (Inr sset, k2) \<Rightarrow>
     (case GetStatefulSetPods statefulset k2 of
        ((podList, Some err), k3) \<Rightarrow>
          (Inr (True, Some (ErrAppNotReady (sset_Name sset)
             ''Failed to get pods for statefulset. Err: %v'' [ArgError (Some err)])), k3)
      | ((None, None), k3) \<Rightarrow>
          (Inr (True, Some (ErrAppNotReady (sset_Name sset)
             ''Failed to get pods for statefulset. Err: %v'' [ArgError None])), k3)
      | ((Some podList, None), k3) \<Rightarrow>
          if length podList = 0 then
            (Inr (True, Some (ErrAppNotReady (sset_Name sset) ''StatefulSet has 0 pods'' [])), k3)
          else
            (case sset_Replicas sset of
               None \<Rightarrow> (Inl NilPointerDereference, k3)
             | Some replicas \<Rightarrow>
                 if replicas \<noteq> sset_StatusReplicas sset then
                   (Inr (True, Some (ErrAppNotReady (sset_Name sset)
                      (''Expected replicas: %v Observed replicas: %v. Current pods overview:'' @ [CHR 0x0A] @ ''%s'')
                      [ArgInt32 replicas, ArgInt32 (sset_StatusReplicas sset),
                       ArgOverview (generatePodsOverviewString podList)])), k3)
                 else if replicas \<noteq> sset_ReadyReplicas sset then
                   (Inr (True, Some (ErrAppNotReady (sset_Name sset)
                      (''Expected replicas: %v Ready replicas: %v Current pods overview:'' @ [CHR 0x0A] @ ''%s'')
                      [ArgInt32 replicas, ArgInt32 (sset_ReadyReplicas sset),
                       ArgOverview (generatePodsOverviewString podList)])), k3)
                 else
                   (case firstNotReady podList of
                      Some pod \<Rightarrow>
                        (Inr (True, Some (ErrAppNotReady (sset_Name sset)
                           ''Pod: %v is not yet ready'' [ArgString (pod_Name pod)])), k3)
                    | None \<Rightarrow> (Inr (False, None), k3))))))"

definition ValidateStatefulSet ::
  "StatefulSet \<Rightarrow> int \<Rightarrow> k8sOps \<Rightarrow> ((panic + error option) \<times> k8sOps) option" where
  "ValidateStatefulSet statefulset timeout k =
     returnErr (DoRetryWithTimeout (ValidateStatefulSet_task statefulset) timeout (10 * Second) k)"





section \<open>Example objects\<close>

text \<open>Concrete pods and a concrete cluster, for the instances of the theorems below.\<close>

definition runningContainer :: ContainerStatus where
  "runningContainer =
     \<lparr>container_Name = ''app'', State = \<lparr>Running = Some \<lparr>StartedAt = ''t0''\<rparr>\<rparr>, Ready = True\<rparr>"

definition unreadyContainer :: ContainerStatus where
  "unreadyContainer =
     \<lparr>container_Name = ''app'', State = \<lparr>Running = Some \<lparr>StartedAt = ''t0''\<rparr>\<rparr>, Ready = False\<rparr>"

definition waitingContainer :: ContainerStatus where
  "waitingContainer = \<lparr>container_Name = ''app'', State = \<lparr>Running = None\<rparr>, Ready = False\<rparr>"

definition ownerRef :: "UID \<Rightarrow> bool option \<Rightarrow> OwnerReference" where
  "ownerRef uid c = \<lparr>ref_Kind = ''ReplicaSet'', ref_Name = ''web'', ref_UID = uid, Controller = c\<rparr>"

definition examplePod ::
  "string \<Rightarrow> OwnerReference list \<Rightarrow> ContainerStatus list \<Rightarrow> ContainerStatus list \<Rightarrow> Pod" where
  "examplePod name owners inits containers =
     \<lparr>pod_Name = name, pod_Namespace = ''default'', pod_UID = ''uid-'' @ name,
      pod_OwnerReferences = owners, HostIP = ''10.0.0.1'',
      InitContainerStatuses = inits, ContainerStatuses = containers\<rparr>"

definition podA :: Pod where
  "podA = examplePod ''a'' [ownerRef ''u1'' (Some True)] [] [runningContainer]"

definition podB :: Pod where
  "podB = examplePod ''b'' [ownerRef ''u2'' (Some True)] [] [runningContainer]"

text \<open>A cluster with no objects, a client that is set up and no fault to come.\<close>

definition exampleCluster :: k8sOps where
  "exampleCluster =
     \<lparr>client = True, faults = [], api_nodes = [], api_pods = [], api_deployments = [],
      api_replicaSets = [], api_claims = [], api_statefulSets = [], api_jobs = []\<rparr>"

text \<open>The number of attempts the executor makes at a task that stays transient:
  the timeout divided by the interval, rounded up, and at least one.\<close>

definition attemptsUntil :: "int \<Rightarrow> int \<Rightarrow> nat" where
  "attemptsUntil timeout interval = max 1 (nat ((timeout - 1) div interval + 1))"




text \<open>A stateful set \<open>db\<close>, a deployment \<open>web\<close> with its replica set, and a pod
  owned by the stateful set, all in namespace \<open>default\<close>.\<close>

definition exampleStatefulSet :: "int32 \<Rightarrow> Volume list \<Rightarrow> int32 \<Rightarrow> int32 \<Rightarrow> StatefulSet" where
  "exampleStatefulSet replicas volumes observed ready =
     \<lparr>sset_Name = ''db'', sset_Namespace = ''default'', sset_UID = ''ss-uid'',
      sset_Replicas = Some replicas, sset_Volumes = volumes,
      sset_StatusReplicas = observed, sset_ReadyReplicas = ready\<rparr>"

definition exampleDeployment :: "int32 \<Rightarrow> Volume list \<Rightarrow> int32 \<Rightarrow> int32 \<Rightarrow> Deployment" where
  "exampleDeployment replicas volumes available ready =
     \<lparr>dep_Name = ''web'', dep_Namespace = ''default'', dep_Replicas = Some replicas,
      dep_Volumes = volumes, dep_AvailableReplicas = available, dep_ReadyReplicas = ready\<rparr>"

definition exampleReplicaSet :: ReplicaSet where
  "exampleReplicaSet =
     \<lparr>rs_Name = ''web-1'', rs_Namespace = ''default'', rs_UID = ''u1'',
      rs_OwnerReferences = [ownerRef ''dep-uid'' (Some True)]\<rparr>"

definition podOfSet :: "string \<Rightarrow> ContainerStatus list \<Rightarrow> Pod" where
  "podOfSet name containers = examplePod name [ownerRef ''ss-uid'' (Some True)] [] containers"







text \<open>Claims \<open>data\<close> (ReadWriteOnce) and \<open>shared\<close> (ReadWriteMany) in namespace
  \<open>default\<close>, the volumes that mount them, and pods of the replica set and of the stateful
  set of the examples.\<close>

definition exampleClaim :: "string \<Rightarrow> string \<Rightarrow> PersistentVolumeClaim" where
  "exampleClaim name mode = \<lparr>pvc_Name = name, pvc_Namespace = ''default'', AccessModes = [mode]\<rparr>"

definition claimVolume :: "string \<Rightarrow> Volume" where
  "claimVolume name = \<lparr>vol_Name = name, vol_ClaimName = Some name\<rparr>"

definition podOfReplicaSet :: "string \<Rightarrow> ContainerStatus list \<Rightarrow> Pod" where
  "podOfReplicaSet name containers = examplePod name [ownerRef ''u1'' (Some True)] [] containers"

text \<open>Three pods of which one is ready, and three ready pods, for each of the two
  workloads.\<close>

definition webPods :: "ContainerStatus \<Rightarrow> Pod list" where
  "webPods others =
     [podOfReplicaSet ''web-a'' [runningContainer], podOfReplicaSet ''web-b'' [others],
      podOfReplicaSet ''web-c'' [others]]"

definition dbPods :: "ContainerStatus \<Rightarrow> Pod list" where
  "dbPods others =
     [podOfSet ''db-0'' [runningContainer], podOfSet ''db-1'' [others],
      podOfSet ''db-2'' [others]]"

text \<open>A cluster with the deployment \<open>web\<close> and the stateful set \<open>db\<close>, both declaring
  three replicas and mounting the given volumes, with the given available (observed, for
  the stateful set: three) and ready replicas in their status; the replica set of the
  deployment; the two claims; and three pods of each workload, the first of them ready and
  the other two with the given container status.\<close>

definition workloadCluster :: "Volume list \<Rightarrow> int32 \<Rightarrow> int32 \<Rightarrow> ContainerStatus \<Rightarrow> k8sOps" where
  "workloadCluster volumes available ready others =
     exampleCluster\<lparr>api_pods := webPods others @ dbPods others,
       api_deployments := [exampleDeployment 3 volumes available ready],
       api_replicaSets := [exampleReplicaSet],
       api_claims := [exampleClaim ''data'' ReadWriteOnce, exampleClaim ''shared'' ReadWriteMany],
       api_statefulSets := [exampleStatefulSet 3 volumes 3 ready]\<rparr>"

text \<open>A node \<open>n1\<close> with the given label map and cordon state, a cluster of that one node
  with a script of faults, and the script in which every \<open>Get\<close> of \<open>AddLabelOnNode\<close>
  succeeds and every \<open>Update\<close> fails.\<close>

definition exampleNode :: "(string \<rightharpoonup> string) option \<Rightarrow> bool \<Rightarrow> Node" where
  "exampleNode labels unschedulable =
     \<lparr>node_Name = ''n1'', node_Labels = labels, Unschedulable = unschedulable\<rparr>"

definition hostLabels :: "(string \<rightharpoonup> string) option" where
  "hostLabels = Some [''kubernetes.io/hostname'' \<mapsto> ''n1'']"

definition nodeCluster :: "Node \<Rightarrow> string option list \<Rightarrow> k8sOps" where
  "nodeCluster node fs = exampleCluster\<lparr>faults := fs, api_nodes := [node]\<rparr>"

definition updatesFail :: "string option list" where
  "updatesFail =
     [None, Some ''conflict'', None, Some ''conflict'', None, Some ''conflict'',
      None, Some ''conflict'', None, Some ''conflict'']"

section \<open>Properties of the retry executor\<close>

lemma retryLoop_panic:
  "t s = (Inl p, s') \<Longrightarrow> retryLoop t timeout interval elapsed n s = Some (Inl p, Suc n, s')"
  by (subst retryLoop.simps) simp

lemma retryLoop_stop:
  "t s = (Inr (False, err), s') \<Longrightarrow>
   retryLoop t timeout interval elapsed n s = Some (Inr err, Suc n, s')"
  by (subst retryLoop.simps) simp

lemma retryLoop_timeout:
  "t s = (Inr (True, err), s') \<Longrightarrow> timeout \<le> elapsed + max 0 interval \<Longrightarrow>
   retryLoop t timeout interval elapsed n s = Some (Inr err, Suc n, s')"
  by (subst retryLoop.simps) (simp add: Let_def)

lemma retryLoop_nil:
  "t s = (Inr (retry, None), s') \<Longrightarrow>
   retryLoop t timeout interval elapsed n s = Some (Inr None, Suc n, s')"
  by (subst retryLoop.simps) simp

lemma retryLoop_retry:
  "t s = (Inr (True, Some e), s') \<Longrightarrow> elapsed + max 0 interval < timeout \<Longrightarrow>
   retryLoop t timeout interval elapsed n s =
   retryLoop t timeout interval (elapsed + max 0 interval) (Suc n) s'"
  by (subst retryLoop.simps) (simp add: Let_def)

text \<open>With a positive interval the executor returns, whatever the task does.\<close>

lemma retryLoop_terminates:
  assumes "0 < interval"
  shows "\<exists>r. retryLoop t timeout interval elapsed n s = Some r"
proof (induction "nat (timeout - elapsed)" arbitrary: elapsed n s rule: less_induct)
  case less
  obtain a s' where ts: "t s = (a, s')" by (cases "t s")
  show ?case
  proof (cases a)
    case (Inl p)
    with ts show ?thesis by (simp add: retryLoop_panic)
  next
    case (Inr re)
    obtain retry err where re: "re = (retry, err)" by (cases re)
    show ?thesis
    proof (cases retry)
      case False
      with ts Inr re show ?thesis by (simp add: retryLoop_stop)
    next
      case True
      show ?thesis
      proof (cases "timeout \<le> elapsed + max 0 interval")
        case True
        with ts Inr re \<open>retry\<close> show ?thesis by (simp add: retryLoop_timeout)
      next
        case False
        then have lt: "elapsed + max 0 interval < timeout" by simp
        show ?thesis
        proof (cases err)
          case None
          with ts Inr re show ?thesis by (simp add: retryLoop_nil)
        next
          case (Some e)
          have "nat (timeout - (elapsed + max 0 interval)) < nat (timeout - elapsed)"
            using assms lt by simp
          from less[OF this] obtain r where
            "retryLoop t timeout interval (elapsed + max 0 interval) (Suc n) s' = Some r"
            by blast
          with ts Inr re \<open>retry\<close> lt Some
          have "retryLoop t timeout interval elapsed n s = Some r"
            by (simp add: retryLoop_retry)
          then show ?thesis by blast
        qed
      qed
    qed
  qed
qed

text \<open>
  C6. For every policy with \<open>timeout \<le> 0\<close> the executor invokes the task exactly once:
  it returns, the count of invocations is 1, the state is the state after one call of the
  task, and the error (or panic) is what that call gave.
\<close>

theorem DoRetryWithTimeout_nonpositive_timeout:
  assumes "timeout \<le> 0"
  shows "DoRetryWithTimeout t timeout interval s
           = Some (map_sum id snd (fst (t s)), 1, snd (t s))"
proof -
  obtain a s' where ts: "t s = (a, s')" by (cases "t s")
  show ?thesis
  proof (cases a)
    case (Inl p)
    with ts show ?thesis by (simp add: DoRetryWithTimeout_def retryLoop_panic)
  next
    case (Inr re)
    obtain retry err where re: "re = (retry, err)" by (cases re)
    show ?thesis
    proof (cases retry)
      case False
      with ts Inr re show ?thesis by (simp add: DoRetryWithTimeout_def retryLoop_stop)
    next
      case True
      have "timeout \<le> 0 + max 0 interval" using assms by simp
      with ts Inr re True show ?thesis
        by (simp add: DoRetryWithTimeout_def retryLoop_timeout)
    qed
  qed
qed

theorem DoRetryWithTimeout_nonpositive_timeout_witness:
  "(0 - 1 :: int) \<le> 0
   \<and> DoRetryWithTimeout (\<lambda>calls :: nat. (Inr (True, Some ErrPodsNotFound), Suc calls))
        (0 - 1) (5 * Second) 0
      = Some (Inr (Some ErrPodsNotFound), 1, 1)
   \<and> DoRetryWithTimeout (\<lambda>calls :: nat. (Inr (True, Some ErrPodsNotFound), Suc calls))
        0 0 0
      = Some (Inr (Some ErrPodsNotFound), 1, 1)"
proof -
  have h: "(0 - 1 :: int) \<le> 0" by simp
  have z: "(0 :: int) \<le> 0" by simp
  show ?thesis
    using h DoRetryWithTimeout_nonpositive_timeout
            [OF h, of "\<lambda>calls :: nat. (Inr (True, Some ErrPodsNotFound), Suc calls)" "5 * Second" 0]
          DoRetryWithTimeout_nonpositive_timeout
            [OF z, of "\<lambda>calls :: nat. (Inr (True, Some ErrPodsNotFound), Suc calls)" 0 0]
    by simp
qed

section \<open>Properties of the pod queries\<close>

lemma initContainerRunning_iff:
  "initContainerRunning cs \<longleftrightarrow> (\<exists>c \<in> set cs. Running (State c) \<noteq> None)"
  by (induction cs) auto

lemma containersRunning_iff:
  "containersRunning cs \<longleftrightarrow> (\<forall>c \<in> set cs. Running (State c) \<noteq> None)"
  by (induction cs) auto

lemma containersReady_iff:
  "containersReady cs \<longleftrightarrow> (\<forall>c \<in> set cs. Running (State c) \<noteq> None \<and> Ready c)"
  by (induction cs) auto

text \<open>
  C7. \<open>IsPodRunning\<close> is false if some init container is running, false if some
  regular container is not running, and true otherwise. \<open>IsPodReady\<close> has the same
  guard on the init containers and is true exactly when, in addition, every regular
  container is running and has its \<open>Ready\<close> flag set.
\<close>

theorem IsPodRunning_IsPodReady_spec:
  "((\<exists>c \<in> set (InitContainerStatuses pod). Running (State c) \<noteq> None)
      \<longrightarrow> \<not> IsPodRunning pod \<and> \<not> IsPodReady pod)
   \<and> ((\<exists>c \<in> set (ContainerStatuses pod). Running (State c) = None)
      \<longrightarrow> \<not> IsPodRunning pod)
   \<and> (\<not> (\<exists>c \<in> set (InitContainerStatuses pod). Running (State c) \<noteq> None)
       \<and> \<not> (\<exists>c \<in> set (ContainerStatuses pod). Running (State c) = None)
      \<longrightarrow> IsPodRunning pod)
   \<and> (IsPodReady pod \<longleftrightarrow>
        \<not> (\<exists>c \<in> set (InitContainerStatuses pod). Running (State c) \<noteq> None)
        \<and> (\<forall>c \<in> set (ContainerStatuses pod). Running (State c) \<noteq> None \<and> Ready c))"
  by (simp add: IsPodRunning_def IsPodReady_def initContainerRunning_iff
      containersRunning_iff containersReady_iff)

theorem IsPodRunning_IsPodReady_witness:
  "\<not> IsPodRunning (examplePod ''a'' [] [runningContainer] [runningContainer])
   \<and> \<not> IsPodReady (examplePod ''a'' [] [runningContainer] [runningContainer])
   \<and> \<not> IsPodRunning (examplePod ''b'' [] [] [runningContainer, waitingContainer])
   \<and> IsPodRunning (examplePod ''c'' [] [waitingContainer] [runningContainer, unreadyContainer])
   \<and> \<not> IsPodReady (examplePod ''c'' [] [waitingContainer] [runningContainer, unreadyContainer])
   \<and> IsPodReady (examplePod ''d'' [] [waitingContainer] [runningContainer, runningContainer])"
  using IsPodRunning_IsPodReady_spec [of "examplePod ''a'' [] [runningContainer] [runningContainer]"]
    IsPodRunning_IsPodReady_spec [of "examplePod ''b'' [] [] [runningContainer, waitingContainer]"]
    IsPodRunning_IsPodReady_spec [of "examplePod ''c'' [] [waitingContainer] [runningContainer, unreadyContainer]"]
    IsPodRunning_IsPodReady_spec [of "examplePod ''d'' [] [waitingContainer] [runningContainer, runningContainer]"]
  by (simp add: examplePod_def runningContainer_def waitingContainer_def unreadyContainer_def)

lemma ownersLoop_Inr:
  "ownersLoop owners = Inr b \<Longrightarrow> b \<longleftrightarrow> (\<exists>owner \<in> set owners. Controller owner = Some True)"
  by (induction owners) (auto split: option.splits if_splits)

lemma ownersLoop_all_set:
  "\<forall>owner \<in> set owners. Controller owner \<noteq> None \<Longrightarrow>
   ownersLoop owners = Inr (\<exists>owner \<in> set owners. Controller owner = Some True)"
  by (induction owners) (auto split: option.splits)

text \<open>Where \<open>IsPodBeingManaged\<close> returns, it returns what the claim says; and it
  returns for every pod whose owner references all have the flag set.\<close>

lemma IsPodBeingManaged_returns:
  "IsPodBeingManaged pod = Inr b \<Longrightarrow>
   b \<longleftrightarrow> (\<exists>owner \<in> set (pod_OwnerReferences pod). Controller owner = Some True)"
  by (auto simp: IsPodBeingManaged_def split: if_splits dest: ownersLoop_Inr)

lemma IsPodBeingManaged_all_set:
  "\<forall>owner \<in> set (pod_OwnerReferences pod). Controller owner \<noteq> None \<Longrightarrow>
   IsPodBeingManaged pod
     = Inr (\<exists>owner \<in> set (pod_OwnerReferences pod). Controller owner = Some True)"
  by (auto simp: IsPodBeingManaged_def ownersLoop_all_set)

text \<open>
  C9. The claim is that \<open>IsPodBeingManaged\<close> never faults, also for an owner reference
  whose controller flag is unset. The code dereferences the flag of each owner reference
  it visits: for a pod whose only owner reference has no controller flag the call panics
  with a nil pointer dereference, where the claim has it return false.
\<close>

theorem IsPodBeingManaged_unset_controller_panics:
  "IsPodBeingManaged (examplePod ''a'' [ownerRef ''u1'' None] [] [runningContainer])
     = Inl NilPointerDereference"
  by (simp add: IsPodBeingManaged_def examplePod_def ownerRef_def)

section \<open>Properties of the owner resolution\<close>

lemma appendForOwners_eq:
  "appendForOwners uid pod owners result =
     result @ replicate (length (filter (\<lambda>owner. ref_UID owner = uid) owners)) pod"
  by (induction owners arbitrary: result) (auto simp: replicate_append_same)

lemma podsOfOwner_eq:
  "podsOfOwner uid items result =
     result @ concat (map (\<lambda>pod. replicate
        (length (filter (\<lambda>owner. ref_UID owner = uid) (pod_OwnerReferences pod))) pod) items)"
  by (induction items arbitrary: result) (auto simp: appendForOwners_eq)

lemma set_podsOfOwner:
  "set (podsOfOwner uid items []) =
     {pod \<in> set items. \<exists>owner \<in> set (pod_OwnerReferences pod). ref_UID owner = uid}"
  by (auto simp: podsOfOwner_eq filter_empty_conv)

lemma nextFault_cases:
  "nextFault k = (f, k') \<Longrightarrow> k' = k\<lparr>faults := tl (faults k)\<rparr>"
  by (cases "faults k") (auto simp: nextFault_def)

lemma nextFault_api_pods: "nextFault k = (f, k') \<Longrightarrow> api_pods k' = api_pods k"
  by (drule nextFault_cases) simp

lemma initK8sClient_api_pods: "initK8sClient k = (e, k') \<Longrightarrow> api_pods k' = api_pods k"
  unfolding initK8sClient_def
  by (cases "nextFault k"; cases "nextFault (snd (nextFault k))")
     (auto split: if_splits option.splits dest!: nextFault_api_pods)

lemma Pods_List_items:
  "Pods_List namespace k = (Inr items, k') \<Longrightarrow>
   items = filter (\<lambda>p. namespace = [] \<or> pod_Namespace p = namespace) (api_pods k)"
  unfolding Pods_List_def
  by (cases "nextFault k") (auto split: option.splits dest!: nextFault_api_pods)

lemma GetPods_items:
  "GetPods namespace k = (Inr items, k1) \<Longrightarrow>
   items = filter (\<lambda>p. namespace = [] \<or> pod_Namespace p = namespace) (api_pods k)"
  unfolding GetPods_def
  by (cases "initK8sClient k"; cases "Pods_List namespace (snd (initK8sClient k))")
     (auto split: option.splits sum.splits dest!: initK8sClient_api_pods Pods_List_items)

lemma podsOfOwner_Nil_iff:
  "podsOfOwner uid items [] = [] \<longleftrightarrow>
     \<not> (\<exists>pod \<in> set items. \<exists>owner \<in> set (pod_OwnerReferences pod). ref_UID owner = uid)"
proof -
  have "podsOfOwner uid items [] = [] \<longleftrightarrow> set (podsOfOwner uid items []) = {}" by simp
  also have "\<dots> \<longleftrightarrow> \<not> (\<exists>pod \<in> set items. \<exists>owner \<in> set (pod_OwnerReferences pod). ref_UID owner = uid)"
    unfolding set_podsOfOwner by blast
  finally show ?thesis .
qed

lemma GetPodsByOwner_not_nil_nil: "fst (GetPodsByOwner uid namespace k) \<noteq> (None, None)"
  unfolding GetPodsByOwner_def Let_def
  by (cases "GetPods namespace k") (simp split: sum.splits)

lemma GetPodsByOwner_listed:
  assumes "GetPods namespace k = (Inr items, k1)"
  shows "if \<not> (\<exists>pod \<in> set items. \<exists>owner \<in> set (pod_OwnerReferences pod). ref_UID owner = uid)
         then GetPodsByOwner uid namespace k = ((None, Some ErrPodsNotFound), k1)
         else \<exists>result. GetPodsByOwner uid namespace k = ((Some result, None), k1)
                \<and> set result = {pod \<in> set items.
                      \<exists>owner \<in> set (pod_OwnerReferences pod). ref_UID owner = uid}
                \<and> result = concat (map (\<lambda>pod. replicate
                     (length (filter (\<lambda>owner. ref_UID owner = uid) (pod_OwnerReferences pod)))
                     pod) items)"
proof (cases "podsOfOwner uid items [] = []")
  case True
  then show ?thesis using assms podsOfOwner_Nil_iff[of uid items]
    by (simp add: GetPodsByOwner_def)
next
  case False
  then have ex: "\<exists>pod \<in> set items. \<exists>owner \<in> set (pod_OwnerReferences pod). ref_UID owner = uid"
    using podsOfOwner_Nil_iff[of uid items] by blast
  have g: "GetPodsByOwner uid namespace k = ((Some (podsOfOwner uid items []), None), k1)"
    using assms False by (simp add: GetPodsByOwner_def)
  have l: "podsOfOwner uid items [] = concat (map (\<lambda>pod. replicate
                     (length (filter (\<lambda>owner. ref_UID owner = uid) (pod_OwnerReferences pod)))
                     pod) items)"
    using podsOfOwner_eq[of uid items "[]"] by simp
  show ?thesis using ex g l set_podsOfOwner[of uid items] by auto
qed

text \<open>
  C8. \<open>GetPodsByOwner\<close> never returns a nil list with a nil error. If listing the pods of
  the namespace succeeds with \<open>items\<close> (the pods of that namespace), then with no pod among
  them carrying an owner reference with the UID the result is nil and \<open>ErrPodsNotFound\<close>,
  and otherwise it is a list with a nil error whose members are exactly the pods that
  carry such a reference. The list keeps the order of the listing and holds a pod once
  for each of its owner references with the UID.
\<close>

theorem GetPodsByOwner_spec:
  "fst (GetPodsByOwner uid namespace k) \<noteq> (None, None)
   \<and> (\<forall>items k1. GetPods namespace k = (Inr items, k1) \<longrightarrow>
        items = filter (\<lambda>p. namespace = [] \<or> pod_Namespace p = namespace) (api_pods k)
        \<and> (if \<not> (\<exists>pod \<in> set items. \<exists>owner \<in> set (pod_OwnerReferences pod). ref_UID owner = uid)
           then GetPodsByOwner uid namespace k = ((None, Some ErrPodsNotFound), k1)
           else \<exists>result. GetPodsByOwner uid namespace k = ((Some result, None), k1)
                  \<and> set result = {pod \<in> set items.
                        \<exists>owner \<in> set (pod_OwnerReferences pod). ref_UID owner = uid}
                  \<and> result = concat (map (\<lambda>pod. replicate
                       (length (filter (\<lambda>owner. ref_UID owner = uid) (pod_OwnerReferences pod)))
                       pod) items)))"
  using GetPodsByOwner_not_nil_nil GetPods_items GetPodsByOwner_listed by blast

lemma GetPods_example:
  "GetPods ''default'' (exampleCluster\<lparr>api_pods := [podA, podB]\<rparr>)
     = (Inr [podA, podB], exampleCluster\<lparr>api_pods := [podA, podB]\<rparr>)"
  by (simp add: GetPods_def initK8sClient_def Pods_List_def nextFault_def exampleCluster_def
      podA_def podB_def examplePod_def)

theorem GetPodsByOwner_witness:
  "GetPods ''default'' (exampleCluster\<lparr>api_pods := [podA, podB]\<rparr>)
     = (Inr [podA, podB], exampleCluster\<lparr>api_pods := [podA, podB]\<rparr>)
   \<and> fst (GetPodsByOwner ''u1'' ''default'' (exampleCluster\<lparr>api_pods := [podA, podB]\<rparr>))
       = (Some [podA], None)
   \<and> fst (GetPodsByOwner ''u3'' ''default'' (exampleCluster\<lparr>api_pods := [podA, podB]\<rparr>))
       = (None, Some ErrPodsNotFound)"
proof -
  let ?k = "exampleCluster\<lparr>api_pods := [podA, podB]\<rparr>"
  have g: "GetPods ''default'' ?k = (Inr [podA, podB], ?k)" by (rule GetPods_example)
  have 1: "fst (GetPodsByOwner ''u1'' ''default'' ?k) = (Some [podA], None)"
    using GetPodsByOwner_spec[of "''u1''" "''default''" ?k] g
    by (auto simp: podA_def podB_def examplePod_def ownerRef_def)
  have 3: "fst (GetPodsByOwner ''u3'' ''default'' ?k) = (None, Some ErrPodsNotFound)"
    using GetPodsByOwner_spec[of "''u3''" "''default''" ?k] g
    by (auto simp: podA_def podB_def examplePod_def ownerRef_def)
  show ?thesis using g 1 3 by simp
qed




lemma ceil_div_le_one: assumes "(0::int) < i" "d \<le> i" shows "(d - 1) div i + 1 \<le> 1"
proof -
  have "(d - 1 + (- 1) * i) div i < 0"
    using assms by (subst pos_imp_zdiv_neg_iff) auto
  moreover have "(d - 1 + (- 1) * i) div i = - 1 + (d - 1) div i"
    using assms by (subst div_mult_self1) auto
  ultimately show ?thesis by simp
qed

lemma ceil_div_step: assumes "(0::int) < i" shows "(d - 1) div i = (d - i - 1) div i + 1"
proof -
  have "(d - i - 1 + i) div i = (d - i - 1) div i + 1"
    using assms by (subst div_add_self2) auto
  moreover have "d - i - 1 + i = d - 1" by simp
  ultimately show ?thesis by simp
qed

lemma ceil_div_nonneg: "(0::int) < i \<Longrightarrow> i < d \<Longrightarrow> 0 \<le> (d - i - 1) div i"
  by (simp add: pos_imp_zdiv_nonneg_iff)

lemma retryLoop_always_transient:
  assumes fixpoint: "t s = (Inr (True, Some e), s)" and pos: "0 < interval"
  shows "retryLoop t timeout interval elapsed n s
           = Some (Inr (Some e), n + attemptsUntil (timeout - elapsed) interval, s)"
proof (induction "nat (timeout - elapsed)" arbitrary: elapsed n rule: less_induct)
  case less
  have e: "max 0 interval = interval" using pos by simp
  show ?case
  proof (cases "timeout \<le> elapsed + max 0 interval")
    case True
    then have "timeout - elapsed \<le> interval" using pos by simp
    then have "nat ((timeout - elapsed - 1) div interval + 1) \<le> 1"
      using ceil_div_le_one[OF pos, of "timeout - elapsed"] by linarith
    then have "attemptsUntil (timeout - elapsed) interval = 1"
      unfolding attemptsUntil_def by linarith
    with True fixpoint show ?thesis by (simp add: retryLoop_timeout)
  next
    case False
    then have lt: "elapsed + max 0 interval < timeout" by simp
    have m: "nat (timeout - (elapsed + max 0 interval)) < nat (timeout - elapsed)"
      using pos lt by simp
    have lt': "interval < timeout - elapsed" using lt e by simp
    have a: "attemptsUntil (timeout - elapsed) interval
               = Suc (attemptsUntil (timeout - (elapsed + interval)) interval)"
      using ceil_div_step[OF pos, of "timeout - elapsed"] ceil_div_nonneg[OF pos lt']
      by (simp add: attemptsUntil_def max_def nat_add_distrib algebra_simps)
    show ?thesis
      using less[OF m] fixpoint lt a e by (simp add: retryLoop_retry)
  qed
qed

lemma nextFault_stable: "faults k = [] \<Longrightarrow> nextFault k = (None, k)"
  by (simp add: nextFault_def)

lemma initK8sClient_stable: "client k \<Longrightarrow> initK8sClient k = (None, k)"
  by (simp add: initK8sClient_def)





lemma sless_examples:
  "0 <s (1::int32)" "0 <s (2::int32)" "0 <s (3::int32)" "\<not> 0 <s (0::int32)" "\<not> 0 <s (- 1 ::int32)"
  "(1::int32) \<le>s 1" "(1::int32) \<le>s 3" "\<not> (3::int32) \<le>s 1" "(1::int32) <s 3" "\<not> (1::int32) <s 1"
  "(3::int32) \<le>s 3" "\<not> (3::int32) <s 3"
  by (simp_all add: word_sless_alt word_sle_eq)









section \<open>Properties of the job validation\<close>











section \<open>Properties of waiting for a pod's deletion\<close>




lemma cluster_simps:
  "client exampleCluster" "faults exampleCluster = []" "api_pods exampleCluster = []"
  by (simp_all add: exampleCluster_def)





section \<open>Properties of the termination checks\<close>

lemma GetPodsByOwner_Some_nonempty:
  "GetPodsByOwner uid namespace k = ((Some podList, err), k') \<Longrightarrow> podList \<noteq> []"
  unfolding GetPodsByOwner_def Let_def
  by (cases "GetPods namespace k") (auto split: sum.splits if_splits)


lemma GetDeploymentPods_Some_nonempty:
  "GetDeploymentPods deployment k = ((Some podList, err), k') \<Longrightarrow> podList \<noteq> []"
  unfolding GetDeploymentPods_def
  by (cases "initK8sClient k"; cases "ReplicaSets_List (dep_Namespace deployment) (snd (initK8sClient k))")
     (auto split: option.splits sum.splits dest: GetPodsByOwner_Some_nonempty)






















text \<open>On a cluster with no fault to come a request changes nothing and answers from
  the objects.\<close>

lemma getObject_stable:
  "faults k = [] \<Longrightarrow>
   getObject resource objects namespaceOf nameOf namespace name k =
     (case find (\<lambda>obj. namespaceOf obj = namespace \<and> nameOf obj = name) (objects k) of
        None \<Rightarrow> Inl (notFound resource name)
      | Some obj \<Rightarrow> Inr obj, k)"
  by (simp add: getObject_def nextFault_stable split: option.splits)

lemma Pods_List_stable:
  "faults k = [] \<Longrightarrow>
   Pods_List namespace k =
     (Inr (filter (\<lambda>p. namespace = [] \<or> pod_Namespace p = namespace) (api_pods k)), k)"
  by (simp add: Pods_List_def nextFault_stable)

lemma ReplicaSets_List_stable:
  "faults k = [] \<Longrightarrow>
   ReplicaSets_List namespace k =
     (Inr (filter (\<lambda>r. namespace = [] \<or> rs_Namespace r = namespace) (api_replicaSets k)), k)"
  by (simp add: ReplicaSets_List_def nextFault_stable)

lemma GetPods_stable:
  "client k \<Longrightarrow> faults k = [] \<Longrightarrow>
   GetPods namespace k =
     (Inr (filter (\<lambda>p. namespace = [] \<or> pod_Namespace p = namespace) (api_pods k)), k)"
  by (simp add: GetPods_def initK8sClient_stable Pods_List_stable)





lemma example_names:
  "sset_Name (exampleStatefulSet r v o' y) = ''db''"
  "sset_Namespace (exampleStatefulSet r v o' y) = ''default''"
  "sset_UID (exampleStatefulSet r v o' y) = ''ss-uid''"
  "dep_Name (exampleDeployment r v a y) = ''web''"
  "dep_Namespace (exampleDeployment r v a y) = ''default''"
  by (simp_all add: exampleStatefulSet_def exampleDeployment_def)





















section \<open>Properties of the readiness checks\<close>

lemma volumesLoop_unshared:
  assumes "\<forall>vol \<in> set vols. \<forall>cn. vol_ClaimName vol = Some cn \<longrightarrow>
             (\<exists>claim. PersistentVolumeClaims_Get namespace cn k = (Inr claim, k)
                \<and> \<not> isPVCShared claim)"
  shows "volumesLoop namespace vols foundPVC k
           = (Inr (False, foundPVC \<or> (\<exists>vol \<in> set vols. vol_ClaimName vol \<noteq> None)), k)"
  using assms
proof (induction vols arbitrary: foundPVC)
  case Nil
  show ?case by simp
next
  case (Cons vol vols)
  show ?case
  proof (cases "vol_ClaimName vol")
    case None
    with Cons show ?thesis by simp
  next
    case (Some cn)
    with Cons.prems obtain claim where
      c: "PersistentVolumeClaims_Get namespace cn k = (Inr claim, k)" "\<not> isPVCShared claim"
      by auto
    from Cons.prems have "\<forall>vol \<in> set vols. \<forall>cn. vol_ClaimName vol = Some cn \<longrightarrow>
             (\<exists>claim. PersistentVolumeClaims_Get namespace cn k = (Inr claim, k)
                \<and> \<not> isPVCShared claim)" by simp
    from Cons.IH[OF this, of True] Some c show ?thesis by simp
  qed
qed

lemma volumesLoop_shared:
  assumes "\<forall>vol \<in> set vols. \<forall>cn. vol_ClaimName vol = Some cn \<longrightarrow>
             (\<exists>claim. PersistentVolumeClaims_Get namespace cn k = (Inr claim, k))"
    and "\<exists>vol \<in> set vols. \<exists>cn claim. vol_ClaimName vol = Some cn
            \<and> PersistentVolumeClaims_Get namespace cn k = (Inr claim, k) \<and> isPVCShared claim"
  shows "volumesLoop namespace vols foundPVC k = (Inr (True, True), k)"
  using assms
proof (induction vols arbitrary: foundPVC)
  case Nil
  then show ?case by simp
next
  case (Cons vol vols)
  from Cons.prems(1) have all: "\<forall>vol \<in> set vols. \<forall>cn. vol_ClaimName vol = Some cn \<longrightarrow>
             (\<exists>claim. PersistentVolumeClaims_Get namespace cn k = (Inr claim, k))" by simp
  show ?case
  proof (cases "vol_ClaimName vol")
    case None
    with Cons.prems(2) have "\<exists>vol \<in> set vols. \<exists>cn claim. vol_ClaimName vol = Some cn
            \<and> PersistentVolumeClaims_Get namespace cn k = (Inr claim, k) \<and> isPVCShared claim"
      by auto
    from Cons.IH[OF all this, of foundPVC] None show ?thesis by simp
  next
    case (Some cn)
    with Cons.prems(1) obtain claim where
      c: "PersistentVolumeClaims_Get namespace cn k = (Inr claim, k)" by auto
    show ?thesis
    proof (cases "isPVCShared claim")
      case True
      with Some c show ?thesis by simp
    next
      case False
      with Cons.prems(2) Some c
      have "\<exists>vol \<in> set vols. \<exists>cn claim. vol_ClaimName vol = Some cn
            \<and> PersistentVolumeClaims_Get namespace cn k = (Inr claim, k) \<and> isPVCShared claim"
        by auto
      from Cons.IH[OF all this, of True] Some c False show ?thesis by simp
    qed
  qed
qed

lemma isPVCShared_iff:
  "isPVCShared claim \<longleftrightarrow>
     (\<exists>mode \<in> set (AccessModes claim). mode = ReadOnlyMany \<or> mode = ReadWriteMany)"
proof -
  have "sharedMode modes \<longleftrightarrow> (\<exists>mode \<in> set modes. mode = ReadOnlyMany \<or> mode = ReadWriteMany)"
    for modes by (induction modes) auto
  then show ?thesis by (simp add: isPVCShared_def)
qed

lemma readyLoop_count:
  "snd (readyLoop podList notReadyPods readyCount)
     = readyCount + word_of_nat (length (filter IsPodReady podList))"
  by (induction podList arbitrary: notReadyPods readyCount) simp_all

lemma readyLoop_names:
  "fst (readyLoop podList notReadyPods readyCount)
     = notReadyPods @ map pod_Name (filter (\<lambda>p. \<not> IsPodReady p) podList)"
  by (induction podList arbitrary: notReadyPods readyCount) simp_all

lemma requiredReplicasOf_stable:
  assumes "\<forall>vol \<in> set (dep_Volumes dep). \<forall>cn. vol_ClaimName vol = Some cn \<longrightarrow>
             (\<exists>claim. PersistentVolumeClaims_Get (dep_Namespace dep) cn k = (Inr claim, k))"
  shows "requiredReplicasOf dep declared k =
     (Inr (if (\<exists>vol \<in> set (dep_Volumes dep). vol_ClaimName vol \<noteq> None)
              \<and> (\<forall>vol \<in> set (dep_Volumes dep). \<forall>cn claim. vol_ClaimName vol = Some cn
                    \<and> PersistentVolumeClaims_Get (dep_Namespace dep) cn k = (Inr claim, k)
                   \<longrightarrow> \<not> isPVCShared claim)
           then 1 else declared), k)"
proof (cases "\<forall>vol \<in> set (dep_Volumes dep). \<forall>cn claim. vol_ClaimName vol = Some cn
                    \<and> PersistentVolumeClaims_Get (dep_Namespace dep) cn k = (Inr claim, k)
                   \<longrightarrow> \<not> isPVCShared claim")
  case True
  with assms have "\<forall>vol \<in> set (dep_Volumes dep). \<forall>cn. vol_ClaimName vol = Some cn \<longrightarrow>
             (\<exists>claim. PersistentVolumeClaims_Get (dep_Namespace dep) cn k = (Inr claim, k)
                \<and> \<not> isPVCShared claim)"
    by blast
  from volumesLoop_unshared[OF this, of False] True show ?thesis
    by (cases "declared = 1") (auto simp: requiredReplicasOf_def)
next
  case False
  then have "\<exists>vol \<in> set (dep_Volumes dep). \<exists>cn claim. vol_ClaimName vol = Some cn
            \<and> PersistentVolumeClaims_Get (dep_Namespace dep) cn k = (Inr claim, k)
            \<and> isPVCShared claim"
    by blast
  from volumesLoop_shared[OF assms this, of False] False show ?thesis
    by (cases "declared = 1") (auto simp: requiredReplicasOf_def)
qed

lemma ValidateDeployment_task_ready:
  assumes "initK8sClient k = (None, k)"
    and "Deployments_Get (dep_Namespace deployment) (dep_Name deployment) k = (Inr dep, k)"
    and "dep_Replicas dep = Some declared"
    and "requiredReplicasOf dep declared k = (Inr r, k)"
    and "GetDeploymentPods deployment k = ((Some podList, None), k)"
  shows "ValidateDeployment_task deployment k = (Inr (False, None), k) \<longleftrightarrow>
           r \<le>s dep_AvailableReplicas dep \<and> r \<le>s dep_ReadyReplicas dep
           \<and> r \<le>s word_of_nat (length (filter IsPodReady podList))"
proof -
  have ne: "podList \<noteq> []" using assms(5) by (rule GetDeploymentPods_Some_nonempty)
  obtain names cnt where rl: "readyLoop podList [] 0 = (names, cnt)"
    by (cases "readyLoop podList [] 0")
  with readyLoop_count[of podList "[]" 0]
  have cnt: "cnt = word_of_nat (length (filter IsPodReady podList))" by simp
  have t: "ValidateDeployment_task deployment k =
      (if dep_AvailableReplicas dep <s r then
         (Inr (True, Some (ErrAppNotReady (dep_Name dep)
            (''Expected replicas: %v Available replicas: %v Current pods overview:'' @ [CHR 0x0A] @ ''%s'')
            [ArgInt32 r, ArgInt32 (dep_AvailableReplicas dep),
             ArgOverview (generatePodsOverviewString podList)])), k)
       else if dep_ReadyReplicas dep <s r then
         (Inr (True, Some (ErrAppNotReady (dep_Name dep)
            (''Expected replicas: %v Ready replicas: %v Current pods overview:'' @ [CHR 0x0A] @ ''%s'')
            [ArgInt32 r, ArgInt32 (dep_ReadyReplicas dep),
             ArgOverview (generatePodsOverviewString podList)])), k)
       else if r \<le>s cnt then (Inr (False, None), k)
       else (Inr (True, Some (ErrAppNotReady (dep_Name dep)
               ''Pod(s): %#v not yet ready'' [ArgStrings names])), k))"
    using assms ne rl by (simp add: ValidateDeployment_task_def)
  show ?thesis
  proof (cases "dep_AvailableReplicas dep <s r")
    case True
    then have "\<not> r \<le>s dep_AvailableReplicas dep" by (simp add: signed.not_le)
    with True t show ?thesis by simp
  next
    case a: False
    then have a': "r \<le>s dep_AvailableReplicas dep" by (simp add: signed.not_less)
    show ?thesis
    proof (cases "dep_ReadyReplicas dep <s r")
      case True
      then have "\<not> r \<le>s dep_ReadyReplicas dep" by (simp add: signed.not_le)
      with a True t show ?thesis by simp
    next
      case False
      then have "r \<le>s dep_ReadyReplicas dep" by (simp add: signed.not_less)
      with a a' False t cnt show ?thesis by simp
    qed
  qed
qed

lemma firstNotReady_None_iff:
  "firstNotReady podList = None \<longleftrightarrow> (\<forall>pod \<in> set podList. IsPodReady pod)"
  by (induction podList) auto

lemma ValidateStatefulSet_task_ready:
  assumes "initK8sClient k = (None, k)"
    and "StatefulSets_Get (sset_Namespace statefulset) (sset_Name statefulset) k = (Inr sset, k)"
    and "sset_Replicas sset = Some declared"
    and "GetStatefulSetPods statefulset k = ((Some podList, None), k)"
  shows "ValidateStatefulSet_task statefulset k = (Inr (False, None), k) \<longleftrightarrow>
           declared = sset_StatusReplicas sset \<and> declared = sset_ReadyReplicas sset
           \<and> (\<forall>pod \<in> set podList. IsPodReady pod)"
proof -
  have ne: "podList \<noteq> []"
    using assms(4) GetPodsByOwner_Some_nonempty by (simp add: GetStatefulSetPods_def)
  have t: "ValidateStatefulSet_task statefulset k =
      (if declared \<noteq> sset_StatusReplicas sset then
         (Inr (True, Some (ErrAppNotReady (sset_Name sset)
            (''Expected replicas: %v Observed replicas: %v. Current pods overview:'' @ [CHR 0x0A] @ ''%s'')
            [ArgInt32 declared, ArgInt32 (sset_StatusReplicas sset),
             ArgOverview (generatePodsOverviewString podList)])), k)
       else if declared \<noteq> sset_ReadyReplicas sset then
         (Inr (True, Some (ErrAppNotReady (sset_Name sset)
            (''Expected replicas: %v Ready replicas: %v Current pods overview:'' @ [CHR 0x0A] @ ''%s'')
            [ArgInt32 declared, ArgInt32 (sset_ReadyReplicas sset),
             ArgOverview (generatePodsOverviewString podList)])), k)
       else (case firstNotReady podList of
               Some pod \<Rightarrow>
                 (Inr (True, Some (ErrAppNotReady (sset_Name sset)
                    ''Pod: %v is not yet ready'' [ArgString (pod_Name pod)])), k)
             | None \<Rightarrow> (Inr (False, None), k)))"
    using assms ne by (simp add: ValidateStatefulSet_task_def)
  show ?thesis
  proof (cases "firstNotReady podList")
    case None
    with t firstNotReady_None_iff[of podList] show ?thesis by auto
  next
    case (Some pod)
    with firstNotReady_None_iff[of podList] have "\<not> (\<forall>pod \<in> set podList. IsPodReady pod)"
      by simp
    with t Some show ?thesis by auto
  qed
qed

text \<open>A task that leaves the state as it is: the executor returns nil exactly when the
  task returns a nil error.\<close>

lemma DoRetry_fixpoint_nil_iff:
  assumes ts: "t s = (a, s)" and pos: "0 < interval"
  shows "returnErr (DoRetryWithTimeout t timeout interval s) = Some (Inr None, s)
           \<longleftrightarrow> (\<exists>b. a = Inr (b, None))"
proof (cases a)
  case (Inl p)
  with ts have "retryLoop t timeout interval 0 0 s = Some (Inl p, Suc 0, s)"
    by (simp add: retryLoop_panic)
  with Inl show ?thesis by (simp add: DoRetryWithTimeout_def returnErr_def)
next
  case (Inr re)
  obtain b err where re: "re = (b, err)" by (cases re)
  show ?thesis
  proof (cases err)
    case None
    with ts Inr re have "retryLoop t timeout interval 0 0 s = Some (Inr None, Suc 0, s)"
      by (simp add: retryLoop_nil)
    with Inr re None show ?thesis by (simp add: DoRetryWithTimeout_def returnErr_def)
  next
    case (Some e)
    have "\<exists>m. retryLoop t timeout interval 0 0 s = Some (Inr (Some e), m, s)"
    proof (cases b)
      case True
      with ts Inr re Some have "t s = (Inr (True, Some e), s)" by simp
      from retryLoop_always_transient[where t = t and s = s, OF this pos] show ?thesis
        by blast
    next
      case False
      with ts Inr re Some have "t s = (Inr (False, Some e), s)" by simp
      then have "retryLoop t timeout interval 0 0 s = Some (Inr (Some e), Suc 0, s)"
        by (rule retryLoop_stop)
      then show ?thesis by blast
    qed
    then obtain m where "retryLoop t timeout interval 0 0 s = Some (Inr (Some e), m, s)"
      by blast
    with Inr re Some show ?thesis by (simp add: DoRetryWithTimeout_def returnErr_def)
  qed
qed

lemma ValidateDeployment_ready:
  assumes "initK8sClient k = (None, k)"
    and "Deployments_Get (dep_Namespace deployment) (dep_Name deployment) k = (Inr dep, k)"
    and "dep_Replicas dep = Some declared"
    and "requiredReplicasOf dep declared k = (Inr r, k)"
    and "GetDeploymentPods deployment k = ((Some podList, None), k)"
  shows "ValidateDeployment deployment k = Some (Inr None, k) \<longleftrightarrow>
           r \<le>s dep_AvailableReplicas dep \<and> r \<le>s dep_ReadyReplicas dep
           \<and> r \<le>s word_of_nat (length (filter IsPodReady podList))"
proof -
  obtain a k' where t: "ValidateDeployment_task deployment k = (a, k')"
    by (cases "ValidateDeployment_task deployment k")
  have ne: "podList \<noteq> []" using assms(5) by (rule GetDeploymentPods_Some_nonempty)
  have k': "k' = k" and flag: "\<forall>b. a = Inr (b, None) \<longrightarrow> \<not> b"
    using t assms ne
    by (auto simp: ValidateDeployment_task_def split: prod.splits if_splits)
  have pos: "0 < 10 * Second" by (simp add: Second_def)
  from t k' have tk: "ValidateDeployment_task deployment k = (a, k)" by simp
  have "ValidateDeployment deployment k = Some (Inr None, k) \<longleftrightarrow> (\<exists>b. a = Inr (b, None))"
    unfolding ValidateDeployment_def deploymentReadyTimeout_def
    by (rule DoRetry_fixpoint_nil_iff[where t = "ValidateDeployment_task deployment"
          and s = k, OF tk pos])
  also have "\<dots> \<longleftrightarrow> a = Inr (False, None)" using flag by auto
  also have "\<dots> \<longleftrightarrow> ValidateDeployment_task deployment k = (Inr (False, None), k)"
    using tk by simp
  also have "\<dots> \<longleftrightarrow> r \<le>s dep_AvailableReplicas dep \<and> r \<le>s dep_ReadyReplicas dep
           \<and> r \<le>s word_of_nat (length (filter IsPodReady podList))"
    by (rule ValidateDeployment_task_ready[OF assms])
  finally show ?thesis .
qed

lemma ValidateStatefulSet_ready:
  assumes "initK8sClient k = (None, k)"
    and "StatefulSets_Get (sset_Namespace statefulset) (sset_Name statefulset) k = (Inr sset, k)"
    and "sset_Replicas sset = Some declared"
    and "GetStatefulSetPods statefulset k = ((Some podList, None), k)"
  shows "ValidateStatefulSet statefulset timeout k = Some (Inr None, k) \<longleftrightarrow>
           declared = sset_StatusReplicas sset \<and> declared = sset_ReadyReplicas sset
           \<and> (\<forall>pod \<in> set podList. IsPodReady pod)"
proof -
  obtain a k' where t: "ValidateStatefulSet_task statefulset k = (a, k')"
    by (cases "ValidateStatefulSet_task statefulset k")
  have ne: "podList \<noteq> []"
    using assms(4) GetPodsByOwner_Some_nonempty by (simp add: GetStatefulSetPods_def)
  have k': "k' = k" and flag: "\<forall>b. a = Inr (b, None) \<longrightarrow> \<not> b"
    using t assms ne
    by (auto simp: ValidateStatefulSet_task_def split: option.splits if_splits)
  have pos: "0 < 10 * Second" by (simp add: Second_def)
  from t k' have tk: "ValidateStatefulSet_task statefulset k = (a, k)" by simp
  have "ValidateStatefulSet statefulset timeout k = Some (Inr None, k)
          \<longleftrightarrow> (\<exists>b. a = Inr (b, None))"
    unfolding ValidateStatefulSet_def
    by (rule DoRetry_fixpoint_nil_iff[where t = "ValidateStatefulSet_task statefulset"
          and s = k, OF tk pos])
  also have "\<dots> \<longleftrightarrow> a = Inr (False, None)" using flag by auto
  also have "\<dots> \<longleftrightarrow> ValidateStatefulSet_task statefulset k = (Inr (False, None), k)"
    using tk by simp
  also have "\<dots> \<longleftrightarrow> declared = sset_StatusReplicas sset \<and> declared = sset_ReadyReplicas sset
           \<and> (\<forall>pod \<in> set podList. IsPodReady pod)"
    by (rule ValidateStatefulSet_task_ready[OF assms])
  finally show ?thesis .
qed

lemma ValidateDeployment_required:
  assumes i: "initK8sClient k = (None, k)"
    and g: "Deployments_Get (dep_Namespace deployment) (dep_Name deployment) k = (Inr dep, k)"
    and r: "dep_Replicas dep = Some declared"
    and c: "\<forall>vol \<in> set (dep_Volumes dep). \<forall>cn. vol_ClaimName vol = Some cn \<longrightarrow>
             (\<exists>claim. PersistentVolumeClaims_Get (dep_Namespace dep) cn k = (Inr claim, k))"
    and p: "GetDeploymentPods deployment k = ((Some podList, None), k)"
  shows "\<exists>required.
           requiredReplicasOf dep declared k = (Inr required, k)
         \<and> required =
             (if (\<exists>vol \<in> set (dep_Volumes dep). vol_ClaimName vol \<noteq> None)
                 \<and> (\<forall>vol \<in> set (dep_Volumes dep). \<forall>cn claim. vol_ClaimName vol = Some cn
                       \<and> PersistentVolumeClaims_Get (dep_Namespace dep) cn k = (Inr claim, k)
                      \<longrightarrow> (\<forall>mode \<in> set (AccessModes claim).
                             mode \<noteq> ReadOnlyMany \<and> mode \<noteq> ReadWriteMany))
              then 1 else declared)
         \<and> (ValidateDeployment_task deployment k = (Inr (False, None), k) \<longleftrightarrow>
               required \<le>s dep_AvailableReplicas dep \<and> required \<le>s dep_ReadyReplicas dep
               \<and> required \<le>s word_of_nat (length (filter IsPodReady podList)))
         \<and> (ValidateDeployment deployment k = Some (Inr None, k) \<longleftrightarrow>
               required \<le>s dep_AvailableReplicas dep \<and> required \<le>s dep_ReadyReplicas dep
               \<and> required \<le>s word_of_nat (length (filter IsPodReady podList)))"
proof -
  let ?r = "if (\<exists>vol \<in> set (dep_Volumes dep). vol_ClaimName vol \<noteq> None)
                 \<and> (\<forall>vol \<in> set (dep_Volumes dep). \<forall>cn claim. vol_ClaimName vol = Some cn
                       \<and> PersistentVolumeClaims_Get (dep_Namespace dep) cn k = (Inr claim, k)
                      \<longrightarrow> (\<forall>mode \<in> set (AccessModes claim).
                             mode \<noteq> ReadOnlyMany \<and> mode \<noteq> ReadWriteMany))
              then 1 else declared"
  have s: "\<And>claim. (\<not> isPVCShared claim) \<longleftrightarrow>
             (\<forall>mode \<in> set (AccessModes claim). mode \<noteq> ReadOnlyMany \<and> mode \<noteq> ReadWriteMany)"
    by (auto simp: isPVCShared_iff)
  have q: "requiredReplicasOf dep declared k = (Inr ?r, k)"
    using requiredReplicasOf_stable[OF c, of declared] by (simp only: s)
  from ValidateDeployment_task_ready[OF i g r q p] ValidateDeployment_ready[OF i g r q p] q
  show ?thesis by blast
qed

text \<open>
  C1, as amended. On a cluster that answers every request of the attempt.
  \<open>ValidateDeployment\<close>: for the deployment fetched, with its declared replica count and
  the claims of its volumes fetched, the required replica count is 1 when the pod template
  mounts a claim and no claim it mounts has the access mode ReadOnlyMany or ReadWriteMany,
  and the declared count otherwise; the poll body, and with it \<open>ValidateDeployment\<close>,
  succeeds exactly when the available and the ready replicas of the status and the number
  of ready pods all reach the required count. \<open>ValidateStatefulSet\<close> has no such
  override: it succeeds exactly when the declared count equals the observed and the ready
  replicas of the status and every pod of the set is ready, whatever the volumes are.
\<close>

theorem Validate_required_replicas:
  assumes "initK8sClient k = (None, k)"
  shows
  "(\<forall>dep declared podList.
      Deployments_Get (dep_Namespace deployment) (dep_Name deployment) k = (Inr dep, k)
      \<and> dep_Replicas dep = Some declared
      \<and> (\<forall>vol \<in> set (dep_Volumes dep). \<forall>cn. vol_ClaimName vol = Some cn \<longrightarrow>
            (\<exists>claim. PersistentVolumeClaims_Get (dep_Namespace dep) cn k = (Inr claim, k)))
      \<and> GetDeploymentPods deployment k = ((Some podList, None), k) \<longrightarrow>
      (\<exists>required.
           requiredReplicasOf dep declared k = (Inr required, k)
         \<and> required =
             (if (\<exists>vol \<in> set (dep_Volumes dep). vol_ClaimName vol \<noteq> None)
                 \<and> (\<forall>vol \<in> set (dep_Volumes dep). \<forall>cn claim. vol_ClaimName vol = Some cn
                       \<and> PersistentVolumeClaims_Get (dep_Namespace dep) cn k = (Inr claim, k)
                      \<longrightarrow> (\<forall>mode \<in> set (AccessModes claim).
                             mode \<noteq> ReadOnlyMany \<and> mode \<noteq> ReadWriteMany))
              then 1 else declared)
         \<and> (ValidateDeployment_task deployment k = (Inr (False, None), k) \<longleftrightarrow>
               required \<le>s dep_AvailableReplicas dep \<and> required \<le>s dep_ReadyReplicas dep
               \<and> required \<le>s word_of_nat (length (filter IsPodReady podList)))
         \<and> (ValidateDeployment deployment k = Some (Inr None, k) \<longleftrightarrow>
               required \<le>s dep_AvailableReplicas dep \<and> required \<le>s dep_ReadyReplicas dep
               \<and> required \<le>s word_of_nat (length (filter IsPodReady podList)))))
   \<and> (\<forall>sset declared podList.
      StatefulSets_Get (sset_Namespace statefulset) (sset_Name statefulset) k = (Inr sset, k)
      \<and> sset_Replicas sset = Some declared
      \<and> GetStatefulSetPods statefulset k = ((Some podList, None), k) \<longrightarrow>
      (ValidateStatefulSet_task statefulset k = (Inr (False, None), k) \<longleftrightarrow>
         declared = sset_StatusReplicas sset \<and> declared = sset_ReadyReplicas sset
         \<and> (\<forall>pod \<in> set podList. IsPodReady pod))
      \<and> (ValidateStatefulSet statefulset timeout k = Some (Inr None, k) \<longleftrightarrow>
         declared = sset_StatusReplicas sset \<and> declared = sset_ReadyReplicas sset
         \<and> (\<forall>pod \<in> set podList. IsPodReady pod)))"
proof (intro conjI allI impI)
  fix dep declared podList
  assume h: "Deployments_Get (dep_Namespace deployment) (dep_Name deployment) k = (Inr dep, k)
      \<and> dep_Replicas dep = Some declared
      \<and> (\<forall>vol \<in> set (dep_Volumes dep). \<forall>cn. vol_ClaimName vol = Some cn \<longrightarrow>
            (\<exists>claim. PersistentVolumeClaims_Get (dep_Namespace dep) cn k = (Inr claim, k)))
      \<and> GetDeploymentPods deployment k = ((Some podList, None), k)"
  from h have g: "Deployments_Get (dep_Namespace deployment) (dep_Name deployment) k
                    = (Inr dep, k)"
    and r: "dep_Replicas dep = Some declared"
    and c: "\<forall>vol \<in> set (dep_Volumes dep). \<forall>cn. vol_ClaimName vol = Some cn \<longrightarrow>
            (\<exists>claim. PersistentVolumeClaims_Get (dep_Namespace dep) cn k = (Inr claim, k))"
    and p: "GetDeploymentPods deployment k = ((Some podList, None), k)"
    by simp_all
  show "\<exists>required.
           requiredReplicasOf dep declared k = (Inr required, k)
         \<and> required =
             (if (\<exists>vol \<in> set (dep_Volumes dep). vol_ClaimName vol \<noteq> None)
                 \<and> (\<forall>vol \<in> set (dep_Volumes dep). \<forall>cn claim. vol_ClaimName vol = Some cn
                       \<and> PersistentVolumeClaims_Get (dep_Namespace dep) cn k = (Inr claim, k)
                      \<longrightarrow> (\<forall>mode \<in> set (AccessModes claim).
                             mode \<noteq> ReadOnlyMany \<and> mode \<noteq> ReadWriteMany))
              then 1 else declared)
         \<and> (ValidateDeployment_task deployment k = (Inr (False, None), k) \<longleftrightarrow>
               required \<le>s dep_AvailableReplicas dep \<and> required \<le>s dep_ReadyReplicas dep
               \<and> required \<le>s word_of_nat (length (filter IsPodReady podList)))
         \<and> (ValidateDeployment deployment k = Some (Inr None, k) \<longleftrightarrow>
               required \<le>s dep_AvailableReplicas dep \<and> required \<le>s dep_ReadyReplicas dep
               \<and> required \<le>s word_of_nat (length (filter IsPodReady podList)))"
    by (rule ValidateDeployment_required[OF assms g r c p])
next
  fix sset declared podList
  assume h: "StatefulSets_Get (sset_Namespace statefulset) (sset_Name statefulset) k
               = (Inr sset, k)
      \<and> sset_Replicas sset = Some declared
      \<and> GetStatefulSetPods statefulset k = ((Some podList, None), k)"
  then show "ValidateStatefulSet_task statefulset k = (Inr (False, None), k) \<longleftrightarrow>
         declared = sset_StatusReplicas sset \<and> declared = sset_ReadyReplicas sset
         \<and> (\<forall>pod \<in> set podList. IsPodReady pod)"
    using ValidateStatefulSet_task_ready[OF assms] by blast
next
  fix sset declared podList
  assume h: "StatefulSets_Get (sset_Namespace statefulset) (sset_Name statefulset) k
               = (Inr sset, k)
      \<and> sset_Replicas sset = Some declared
      \<and> GetStatefulSetPods statefulset k = ((Some podList, None), k)"
  then show "ValidateStatefulSet statefulset timeout k = Some (Inr None, k) \<longleftrightarrow>
         declared = sset_StatusReplicas sset \<and> declared = sset_ReadyReplicas sset
         \<and> (\<forall>pod \<in> set podList. IsPodReady pod)"
    using ValidateStatefulSet_ready[OF assms] by blast
qed

lemma workloadCluster_simps:
  "client (workloadCluster vs a r c)" "faults (workloadCluster vs a r c) = []"
  "api_pods (workloadCluster vs a r c) = webPods c @ dbPods c"
  "api_deployments (workloadCluster vs a r c) = [exampleDeployment 3 vs a r]"
  "api_replicaSets (workloadCluster vs a r c) = [exampleReplicaSet]"
  "api_claims (workloadCluster vs a r c)
     = [exampleClaim ''data'' ReadWriteOnce, exampleClaim ''shared'' ReadWriteMany]"
  "api_statefulSets (workloadCluster vs a r c) = [exampleStatefulSet 3 vs 3 r]"
  by (simp_all add: workloadCluster_def exampleCluster_def)

lemma workload_fields:
  "dep_Replicas (exampleDeployment n vs a r) = Some n"
  "dep_Volumes (exampleDeployment n vs a r) = vs"
  "dep_AvailableReplicas (exampleDeployment n vs a r) = a"
  "dep_ReadyReplicas (exampleDeployment n vs a r) = r"
  "sset_Replicas (exampleStatefulSet n vs o' r) = Some n"
  "sset_StatusReplicas (exampleStatefulSet n vs o' r) = o'"
  "sset_ReadyReplicas (exampleStatefulSet n vs o' r) = r"
  by (simp_all add: exampleDeployment_def exampleStatefulSet_def)

lemma IsPodReady_examples:
  "IsPodReady (podOfReplicaSet name [runningContainer])"
  "\<not> IsPodReady (podOfReplicaSet name [unreadyContainer])"
  "IsPodReady (podOfSet name [runningContainer])"
  "\<not> IsPodReady (podOfSet name [unreadyContainer])"
  by (simp_all add: IsPodReady_def podOfReplicaSet_def podOfSet_def examplePod_def
      runningContainer_def unreadyContainer_def)

lemma ready_counts:
  "length (filter IsPodReady (webPods unreadyContainer)) = 1"
  "length (filter IsPodReady (webPods runningContainer)) = 3"
  "length (filter IsPodReady (dbPods unreadyContainer)) = 1"
  by (simp_all add: webPods_def dbPods_def IsPodReady_examples)

lemma workload_init:
  "initK8sClient (workloadCluster vs a r c) = (None, workloadCluster vs a r c)"
  by (simp add: initK8sClient_stable workloadCluster_simps)

lemma workload_Deployments_Get:
  "Deployments_Get ''default'' ''web'' (workloadCluster vs a r c)
     = (Inr (exampleDeployment 3 vs a r), workloadCluster vs a r c)"
  by (simp add: Deployments_Get_def getObject_stable workloadCluster_simps example_names)

lemma workload_StatefulSets_Get:
  "StatefulSets_Get ''default'' ''db'' (workloadCluster vs a r c)
     = (Inr (exampleStatefulSet 3 vs 3 r), workloadCluster vs a r c)"
  by (simp add: StatefulSets_Get_def getObject_stable workloadCluster_simps example_names)

lemma workload_claims:
  "PersistentVolumeClaims_Get ''default'' ''data'' (workloadCluster vs a r c)
     = (Inr (exampleClaim ''data'' ReadWriteOnce), workloadCluster vs a r c)"
  "PersistentVolumeClaims_Get ''default'' ''shared'' (workloadCluster vs a r c)
     = (Inr (exampleClaim ''shared'' ReadWriteMany), workloadCluster vs a r c)"
  by (simp_all add: PersistentVolumeClaims_Get_def getObject_stable workloadCluster_simps
      exampleClaim_def)

lemma workload_GetDeploymentPods:
  "GetDeploymentPods (exampleDeployment 3 vs a r) (workloadCluster vs a r c)
     = ((Some (webPods c), None), workloadCluster vs a r c)"
  by (simp add: GetDeploymentPods_def initK8sClient_stable ReplicaSets_List_stable
      workloadCluster_simps example_names exampleReplicaSet_def ownerRef_def
      GetPodsByOwner_def GetPods_stable webPods_def dbPods_def podOfReplicaSet_def
      podOfSet_def examplePod_def)

lemma workload_GetStatefulSetPods:
  "GetStatefulSetPods (exampleStatefulSet 3 vs 3 r) (workloadCluster vs a r c)
     = ((Some (dbPods c), None), workloadCluster vs a r c)"
  by (simp add: GetStatefulSetPods_def GetPodsByOwner_def GetPods_stable
      workloadCluster_simps example_names ownerRef_def webPods_def dbPods_def
      podOfReplicaSet_def podOfSet_def examplePod_def)

lemma claim_modes:
  "isPVCShared (exampleClaim name ReadWriteMany)" "\<not> isPVCShared (exampleClaim name ReadWriteOnce)"
  "AccessModes (exampleClaim name mode) = [mode]"
  "ReadWriteOnce \<noteq> ReadOnlyMany" "ReadWriteOnce \<noteq> ReadWriteMany"
  by (simp_all add: isPVCShared_def exampleClaim_def ReadWriteMany_def ReadWriteOnce_def
      ReadOnlyMany_def)

lemma claimVolume_simps:
  "vol_ClaimName (claimVolume name) = Some name"
  by (simp add: claimVolume_def)

lemma required_examples:
  "requiredReplicasOf (exampleDeployment 3 [claimVolume ''data''] a r) 3
      (workloadCluster [claimVolume ''data''] a r c)
     = (Inr 1, workloadCluster [claimVolume ''data''] a r c)"
  "requiredReplicasOf (exampleDeployment 3 [claimVolume ''shared''] a r) 3
      (workloadCluster [claimVolume ''shared''] a r c)
     = (Inr 3, workloadCluster [claimVolume ''shared''] a r c)"
  "requiredReplicasOf (exampleDeployment 3 [claimVolume ''data'', claimVolume ''shared''] a r) 3
      (workloadCluster [claimVolume ''data'', claimVolume ''shared''] a r c)
     = (Inr 3, workloadCluster [claimVolume ''data'', claimVolume ''shared''] a r c)"
  by (simp_all add: requiredReplicasOf_def workload_fields example_names claimVolume_simps
      workload_claims claim_modes)

text \<open>
  C1 as stated fails for \<open>ValidateStatefulSet\<close>, and for a deployment that mounts a
  shared claim besides the one that is not shared. The stateful set \<open>db\<close> declares three
  replicas and mounts the ReadWriteOnce claim \<open>data\<close>; with one replica ready the poll
  body asks for a retry, and \<open>ValidateStatefulSet\<close> returns that error when its thirty
  seconds are over. The deployment \<open>web\<close> declares three replicas and mounts \<open>data\<close>
  and the ReadWriteMany claim \<open>shared\<close>: the required count stays 3, and with one
  replica available the poll body asks for a retry.
\<close>

theorem Validate_required_replicas_counterexample:
  "PersistentVolumeClaims_Get ''default'' ''data''
      (workloadCluster [claimVolume ''data''] 1 1 unreadyContainer)
     = (Inr (exampleClaim ''data'' ReadWriteOnce),
        workloadCluster [claimVolume ''data''] 1 1 unreadyContainer)
   \<and> AccessModes (exampleClaim ''data'' ReadWriteOnce) = [ReadWriteOnce]
   \<and> length (filter IsPodReady (dbPods unreadyContainer)) = 1
   \<and> ValidateStatefulSet_task (exampleStatefulSet 3 [claimVolume ''data''] 3 1)
        (workloadCluster [claimVolume ''data''] 1 1 unreadyContainer)
     = (Inr (True, Some (ErrAppNotReady ''db''
          (''Expected replicas: %v Ready replicas: %v Current pods overview:'' @ [CHR 0x0A] @ ''%s'')
          [ArgInt32 3, ArgInt32 1,
           ArgOverview (generatePodsOverviewString (dbPods unreadyContainer))])),
        workloadCluster [claimVolume ''data''] 1 1 unreadyContainer)
   \<and> ValidateStatefulSet (exampleStatefulSet 3 [claimVolume ''data''] 3 1) (30 * Second)
        (workloadCluster [claimVolume ''data''] 1 1 unreadyContainer)
     = Some (Inr (Some (ErrAppNotReady ''db''
          (''Expected replicas: %v Ready replicas: %v Current pods overview:'' @ [CHR 0x0A] @ ''%s'')
          [ArgInt32 3, ArgInt32 1,
           ArgOverview (generatePodsOverviewString (dbPods unreadyContainer))])),
        workloadCluster [claimVolume ''data''] 1 1 unreadyContainer)
   \<and> requiredReplicasOf (exampleDeployment 3 [claimVolume ''data'', claimVolume ''shared''] 1 1) 3
        (workloadCluster [claimVolume ''data'', claimVolume ''shared''] 1 1 unreadyContainer)
     = (Inr 3, workloadCluster [claimVolume ''data'', claimVolume ''shared''] 1 1 unreadyContainer)
   \<and> ValidateDeployment_task (exampleDeployment 3 [claimVolume ''data'', claimVolume ''shared''] 1 1)
        (workloadCluster [claimVolume ''data'', claimVolume ''shared''] 1 1 unreadyContainer)
     = (Inr (True, Some (ErrAppNotReady ''web''
          (''Expected replicas: %v Available replicas: %v Current pods overview:'' @ [CHR 0x0A] @ ''%s'')
          [ArgInt32 3, ArgInt32 1,
           ArgOverview (generatePodsOverviewString (webPods unreadyContainer))])),
        workloadCluster [claimVolume ''data'', claimVolume ''shared''] 1 1 unreadyContainer)"
proof -
  let ?K = "workloadCluster [claimVolume ''data''] 1 1 unreadyContainer"
  let ?M = "workloadCluster [claimVolume ''data'', claimVolume ''shared''] 1 1 unreadyContainer"
  let ?ss = "exampleStatefulSet 3 [claimVolume ''data''] 3 1"
  let ?d = "exampleDeployment 3 [claimVolume ''data'', claimVolume ''shared''] 1 1"
  let ?e = "ErrAppNotReady ''db''
          (''Expected replicas: %v Ready replicas: %v Current pods overview:'' @ [CHR 0x0A] @ ''%s'')
          [ArgInt32 3, ArgInt32 1,
           ArgOverview (generatePodsOverviewString (dbPods unreadyContainer))]"
  have ne: "dbPods unreadyContainer \<noteq> []" "webPods unreadyContainer \<noteq> []"
    by (simp_all add: dbPods_def webPods_def)
  have t: "ValidateStatefulSet_task ?ss ?K = (Inr (True, Some ?e), ?K)"
    using ne
    by (simp add: ValidateStatefulSet_task_def workload_init example_names
        workload_StatefulSets_Get workload_GetStatefulSetPods workload_fields)
  have pos: "0 < 10 * Second" by (simp add: Second_def)
  have v: "ValidateStatefulSet ?ss (30 * Second) ?K = Some (Inr (Some ?e), ?K)"
    using retryLoop_always_transient[where t = "ValidateStatefulSet_task ?ss" and s = ?K,
        OF t pos, of "30 * Second" 0 0]
    by (simp add: ValidateStatefulSet_def DoRetryWithTimeout_def returnErr_def)
  have d: "ValidateDeployment_task ?d ?M
     = (Inr (True, Some (ErrAppNotReady ''web''
          (''Expected replicas: %v Available replicas: %v Current pods overview:'' @ [CHR 0x0A] @ ''%s'')
          [ArgInt32 3, ArgInt32 1,
           ArgOverview (generatePodsOverviewString (webPods unreadyContainer))])), ?M)"
    using ne
    by (simp add: ValidateDeployment_task_def workload_init example_names
        workload_Deployments_Get workload_GetDeploymentPods workload_fields
        required_examples sless_examples)
  show ?thesis
    using workload_claims(1)[of "[claimVolume ''data'']" 1 1 unreadyContainer]
      claim_modes(3)[of "''data''" ReadWriteOnce] ready_counts(3) t v
      required_examples(3)[of 1 1 unreadyContainer] d
    by simp
qed

theorem Validate_required_replicas_witness:
  "requiredReplicasOf (exampleDeployment 3 [claimVolume ''data''] 1 1) 3
        (workloadCluster [claimVolume ''data''] 1 1 unreadyContainer)
     = (Inr 1, workloadCluster [claimVolume ''data''] 1 1 unreadyContainer)
   \<and> length (filter IsPodReady (webPods unreadyContainer)) = 1
   \<and> ValidateDeployment (exampleDeployment 3 [claimVolume ''data''] 1 1)
        (workloadCluster [claimVolume ''data''] 1 1 unreadyContainer)
     = Some (Inr None, workloadCluster [claimVolume ''data''] 1 1 unreadyContainer)
   \<and> requiredReplicasOf (exampleDeployment 3 [claimVolume ''shared''] 1 1) 3
        (workloadCluster [claimVolume ''shared''] 1 1 unreadyContainer)
     = (Inr 3, workloadCluster [claimVolume ''shared''] 1 1 unreadyContainer)
   \<and> ValidateDeployment (exampleDeployment 3 [claimVolume ''shared''] 1 1)
        (workloadCluster [claimVolume ''shared''] 1 1 unreadyContainer)
     \<noteq> Some (Inr None, workloadCluster [claimVolume ''shared''] 1 1 unreadyContainer)
   \<and> ValidateDeployment (exampleDeployment 3 [claimVolume ''shared''] 3 3)
        (workloadCluster [claimVolume ''shared''] 3 3 runningContainer)
     = Some (Inr None, workloadCluster [claimVolume ''shared''] 3 3 runningContainer)
   \<and> ValidateStatefulSet (exampleStatefulSet 3 [claimVolume ''data''] 3 1) (30 * Second)
        (workloadCluster [claimVolume ''data''] 1 1 unreadyContainer)
     \<noteq> Some (Inr None, workloadCluster [claimVolume ''data''] 1 1 unreadyContainer)"
proof -
  let ?K = "workloadCluster [claimVolume ''data''] 1 1 unreadyContainer"
  let ?S = "workloadCluster [claimVolume ''shared''] 1 1 unreadyContainer"
  let ?T = "workloadCluster [claimVolume ''shared''] 3 3 runningContainer"
  let ?dK = "exampleDeployment 3 [claimVolume ''data''] 1 1"
  let ?dS = "exampleDeployment 3 [claimVolume ''shared''] 1 1"
  let ?dT = "exampleDeployment 3 [claimVolume ''shared''] 3 3"
  let ?ss = "exampleStatefulSet 3 [claimVolume ''data''] 3 1"
  note vK = Validate_required_replicas[where k = ?K and deployment = ?dK and statefulset = ?ss
      and timeout = "30 * Second", OF workload_init]
  note vS = Validate_required_replicas[where k = ?S and deployment = ?dS and statefulset = ?ss
      and timeout = "30 * Second", OF workload_init]
  note vT = Validate_required_replicas[where k = ?T and deployment = ?dT and statefulset = ?ss
      and timeout = "30 * Second", OF workload_init]
  have hK: "Deployments_Get (dep_Namespace ?dK) (dep_Name ?dK) ?K = (Inr ?dK, ?K)
      \<and> dep_Replicas ?dK = Some 3
      \<and> (\<forall>vol \<in> set (dep_Volumes ?dK). \<forall>cn. vol_ClaimName vol = Some cn \<longrightarrow>
            (\<exists>claim. PersistentVolumeClaims_Get (dep_Namespace ?dK) cn ?K = (Inr claim, ?K)))
      \<and> GetDeploymentPods ?dK ?K = ((Some (webPods unreadyContainer), None), ?K)"
    by (simp add: example_names workload_Deployments_Get workload_fields claimVolume_simps
        workload_claims workload_GetDeploymentPods)
  have hS: "Deployments_Get (dep_Namespace ?dS) (dep_Name ?dS) ?S = (Inr ?dS, ?S)
      \<and> dep_Replicas ?dS = Some 3
      \<and> (\<forall>vol \<in> set (dep_Volumes ?dS). \<forall>cn. vol_ClaimName vol = Some cn \<longrightarrow>
            (\<exists>claim. PersistentVolumeClaims_Get (dep_Namespace ?dS) cn ?S = (Inr claim, ?S)))
      \<and> GetDeploymentPods ?dS ?S = ((Some (webPods unreadyContainer), None), ?S)"
    by (simp add: example_names workload_Deployments_Get workload_fields claimVolume_simps
        workload_claims workload_GetDeploymentPods)
  have hT: "Deployments_Get (dep_Namespace ?dT) (dep_Name ?dT) ?T = (Inr ?dT, ?T)
      \<and> dep_Replicas ?dT = Some 3
      \<and> (\<forall>vol \<in> set (dep_Volumes ?dT). \<forall>cn. vol_ClaimName vol = Some cn \<longrightarrow>
            (\<exists>claim. PersistentVolumeClaims_Get (dep_Namespace ?dT) cn ?T = (Inr claim, ?T)))
      \<and> GetDeploymentPods ?dT ?T = ((Some (webPods runningContainer), None), ?T)"
    by (simp add: example_names workload_Deployments_Get workload_fields claimVolume_simps
        workload_claims workload_GetDeploymentPods)
  have hss: "StatefulSets_Get (sset_Namespace ?ss) (sset_Name ?ss) ?K = (Inr ?ss, ?K)
      \<and> sset_Replicas ?ss = Some 3
      \<and> GetStatefulSetPods ?ss ?K = ((Some (dbPods unreadyContainer), None), ?K)"
    by (simp add: example_names workload_StatefulSets_Get workload_fields
        workload_GetStatefulSetPods)
  from vK[THEN conjunct1, rule_format, OF hK] obtain rK where
    rK: "requiredReplicasOf ?dK 3 ?K = (Inr rK, ?K)"
      "ValidateDeployment ?dK ?K = Some (Inr None, ?K) \<longleftrightarrow>
         rK \<le>s dep_AvailableReplicas ?dK \<and> rK \<le>s dep_ReadyReplicas ?dK
         \<and> rK \<le>s word_of_nat (length (filter IsPodReady (webPods unreadyContainer)))"
    by blast
  from rK(1) have "rK = 1" by (simp add: required_examples)
  with rK have 1: "requiredReplicasOf ?dK 3 ?K = (Inr 1, ?K)"
    and 2: "ValidateDeployment ?dK ?K = Some (Inr None, ?K)"
    by (simp_all add: workload_fields ready_counts sless_examples)
  from vS[THEN conjunct1, rule_format, OF hS] obtain rS where
    rS: "requiredReplicasOf ?dS 3 ?S = (Inr rS, ?S)"
      "ValidateDeployment ?dS ?S = Some (Inr None, ?S) \<longleftrightarrow>
         rS \<le>s dep_AvailableReplicas ?dS \<and> rS \<le>s dep_ReadyReplicas ?dS
         \<and> rS \<le>s word_of_nat (length (filter IsPodReady (webPods unreadyContainer)))"
    by blast
  from rS(1) have "rS = 3" by (simp add: required_examples)
  with rS have 3: "requiredReplicasOf ?dS 3 ?S = (Inr 3, ?S)"
    and 4: "ValidateDeployment ?dS ?S \<noteq> Some (Inr None, ?S)"
    by (simp_all add: workload_fields ready_counts sless_examples)
  from vT[THEN conjunct1, rule_format, OF hT] obtain rT where
    rT: "requiredReplicasOf ?dT 3 ?T = (Inr rT, ?T)"
      "ValidateDeployment ?dT ?T = Some (Inr None, ?T) \<longleftrightarrow>
         rT \<le>s dep_AvailableReplicas ?dT \<and> rT \<le>s dep_ReadyReplicas ?dT
         \<and> rT \<le>s word_of_nat (length (filter IsPodReady (webPods runningContainer)))"
    by blast
  from rT(1) have "rT = 3" by (simp add: required_examples)
  with rT have 5: "ValidateDeployment ?dT ?T = Some (Inr None, ?T)"
    by (simp add: workload_fields ready_counts sless_examples)
  from vK[THEN conjunct2, rule_format, OF hss, THEN conjunct2]
  have 6: "ValidateStatefulSet ?ss (30 * Second) ?K \<noteq> Some (Inr None, ?K)"
    by (simp add: workload_fields)
  show ?thesis using 1 ready_counts(1) 2 3 4 5 6 by simp
qed

section \<open>Properties of labelling a node\<close>

lemma addLabelLoop_retry:
  assumes "retryCnt < labelUpdateMaxRetries" and "faults k = None # Some m # fs"
    and "find (\<lambda>n. node_Name n = name) (api_nodes k) = Some node"
    and "node_Labels node = Some labels" and "labels key \<noteq> Some v"
  shows "addLabelLoop name key v err retryCnt k
           = addLabelLoop name key v err (retryCnt + 1) (k\<lparr>faults := fs\<rparr>)"
proof -
  have g: "Nodes_Get name k = (Inr node, k\<lparr>faults := Some m # fs\<rparr>)"
    using assms(2,3) by (simp add: Nodes_Get_def nextFault_def)
  have u: "Nodes_Update (node\<lparr>node_Labels := Some (labels(key \<mapsto> v))\<rparr>)
             (k\<lparr>faults := Some m # fs\<rparr>) = (Inl m, k\<lparr>faults := fs\<rparr>)"
    by (simp add: Nodes_Update_def nextFault_def)
  show ?thesis
    by (subst addLabelLoop.simps) (simp add: assms(1,4,5) g u del: addLabelLoop.simps)
qed

lemma addLabelLoop_exhausted:
  "\<not> retryCnt < labelUpdateMaxRetries \<Longrightarrow> addLabelLoop name key v err retryCnt k = (Inr err, k)"
  by (subst addLabelLoop.simps) (simp del: addLabelLoop.simps)

text \<open>
  With the client set up, a node that carries a label map in which the label does not have
  the requested value, and a script in which each of the five attempts finds the node and
  has its \<open>Update\<close> rejected, \<open>AddLabelOnNode\<close> returns nil: the errors of the updates are
  assigned to the \<open>err\<close> of the loop body and the function returns the outer \<open>err\<close>,
  which is never assigned. The nodes of the cluster are as they were.
\<close>

lemma AddLabelOnNode_update_errors_dropped:
  assumes c: "client k"
    and f: "faults k = [None, Some m1, None, Some m2, None, Some m3, None, Some m4,
                        None, Some m5] @ rest"
    and n: "find (\<lambda>n. node_Name n = name) (api_nodes k) = Some node"
    and l: "node_Labels node = Some labels" and a: "labels key \<noteq> Some v"
  shows "AddLabelOnNode name key v k = (Inr None, k\<lparr>faults := rest\<rparr>)"
proof -
  let ?k = "\<lambda>fs. k\<lparr>faults := fs\<rparr>"
  have i: "initK8sClient k = (None, k)" using c by (rule initK8sClient_stable)
  have nn: "\<And>fs. find (\<lambda>n. node_Name n = name) (api_nodes (?k fs)) = Some node"
    using n by simp
  have s: "\<And>cnt m fs. cnt < labelUpdateMaxRetries \<Longrightarrow>
             addLabelLoop name key v None cnt (?k (None # Some m # fs))
               = addLabelLoop name key v None (cnt + 1) (?k fs)"
  proof -
    fix cnt :: int and m fs
    assume lt: "cnt < labelUpdateMaxRetries"
    have ff: "faults (?k (None # Some m # fs)) = None # Some m # fs" by simp
    from addLabelLoop_retry[OF lt ff nn l a]
    show "addLabelLoop name key v None cnt (?k (None # Some m # fs))
               = addLabelLoop name key v None (cnt + 1) (?k fs)" by simp
  qed
  have k0: "k = ?k ([None, Some m1, None, Some m2, None, Some m3, None, Some m4,
                     None, Some m5] @ rest)"
    using f by simp
  have "addLabelLoop name key v None 0 k
          = addLabelLoop name key v None 0
              (?k (None # Some m1 # None # Some m2 # None # Some m3 # None # Some m4
                     # None # Some m5 # rest))"
    using k0 by simp
  also have "\<dots> = addLabelLoop name key v None 1
              (?k (None # Some m2 # None # Some m3 # None # Some m4 # None # Some m5 # rest))"
    using s[of 0 m1] by (simp add: labelUpdateMaxRetries_def)
  also have "\<dots> = addLabelLoop name key v None 2
              (?k (None # Some m3 # None # Some m4 # None # Some m5 # rest))"
    using s[of 1 m2] by (simp add: labelUpdateMaxRetries_def)
  also have "\<dots> = addLabelLoop name key v None 3
              (?k (None # Some m4 # None # Some m5 # rest))"
    using s[of 2 m3] by (simp add: labelUpdateMaxRetries_def)
  also have "\<dots> = addLabelLoop name key v None 4 (?k (None # Some m5 # rest))"
    using s[of 3 m4] by (simp add: labelUpdateMaxRetries_def)
  also have "\<dots> = addLabelLoop name key v None 5 (?k rest)"
    using s[of 4 m5] by (simp add: labelUpdateMaxRetries_def)
  also have "\<dots> = (Inr None, ?k rest)"
    by (rule addLabelLoop_exhausted) (simp add: labelUpdateMaxRetries_def)
  finally show ?thesis using i by (simp add: AddLabelOnNode_def)
qed

lemma nodeCluster_simps:
  "client (nodeCluster node fs)" "faults (nodeCluster node fs) = fs"
  "api_nodes (nodeCluster node fs) = [node]" "api_pods (nodeCluster node fs) = []"
  "(nodeCluster node fs)\<lparr>faults := fs'\<rparr> = nodeCluster node fs'"
  by (simp_all add: nodeCluster_def exampleCluster_def)

lemma exampleNode_simps:
  "node_Name (exampleNode labels u) = ''n1''" "node_Labels (exampleNode labels u) = labels"
  "Unschedulable (exampleNode labels u) = u"
  "(exampleNode labels u)\<lparr>Unschedulable := u'\<rparr> = exampleNode labels u'"
  by (simp_all add: exampleNode_def)

text \<open>The labelled node of the example: every update is rejected and nil is returned.\<close>

lemma AddLabelOnNode_example:
  "AddLabelOnNode ''n1'' ''role'' ''db'' (nodeCluster (exampleNode hostLabels False) updatesFail)
     = (Inr None, nodeCluster (exampleNode hostLabels False) [])"
proof -
  have f: "faults (nodeCluster (exampleNode hostLabels False) updatesFail)
     = [None, Some ''conflict'', None, Some ''conflict'', None, Some ''conflict'',
        None, Some ''conflict'', None, Some ''conflict''] @ []"
    by (simp add: nodeCluster_simps updatesFail_def)
  have n: "find (\<lambda>n. node_Name n = ''n1'')
             (api_nodes (nodeCluster (exampleNode hostLabels False) updatesFail))
           = Some (exampleNode hostLabels False)"
    by (simp add: nodeCluster_simps exampleNode_simps)
  have l: "node_Labels (exampleNode hostLabels False)
             = Some [''kubernetes.io/hostname'' \<mapsto> ''n1'']"
    by (simp add: exampleNode_simps hostLabels_def)
  have a: "[''kubernetes.io/hostname'' \<mapsto> ''n1''] ''role'' \<noteq> Some ''db''" by simp
  from AddLabelOnNode_update_errors_dropped[OF nodeCluster_simps(1) f n l a]
  show ?thesis by (simp add: nodeCluster_simps)
qed

text \<open>
  C10. A node without labels: \<open>node.Labels\<close> is nil. The \<open>Get\<close> succeeds, the label is
  not present, and the script rejects every \<open>Update\<close>; the first attempt panics at
  \<open>node.Labels[key] = value\<close>, before any \<open>Update\<close> is called, and \<open>AddLabelOnNode\<close>
  does not return nil.
\<close>

theorem AddLabelOnNode_nil_label_map_panics:
  "AddLabelOnNode ''n1'' ''role'' ''db'' (nodeCluster (exampleNode None False) updatesFail)
     = (Inl NilMapAssignment, nodeCluster (exampleNode None False) (tl updatesFail))"
proof -
  have i: "initK8sClient (nodeCluster (exampleNode None False) updatesFail)
             = (None, nodeCluster (exampleNode None False) updatesFail)"
    by (simp add: initK8sClient_stable nodeCluster_simps)
  have g: "Nodes_Get ''n1'' (nodeCluster (exampleNode None False) updatesFail)
             = (Inr (exampleNode None False),
                nodeCluster (exampleNode None False) (tl updatesFail))"
    by (simp add: Nodes_Get_def nextFault_def nodeCluster_simps exampleNode_simps
        updatesFail_def)
  show ?thesis
    unfolding AddLabelOnNode_def i
    by (subst addLabelLoop.simps)
       (simp add: g exampleNode_simps labelUpdateMaxRetries_def del: addLabelLoop.simps)
qed

end
